theory Spec2Isabelle
  imports Main
begin

section \<open>Python values used by seller.py and market.py\<close>

text \<open>
  A Python \<open>str\<close> is modelled as a \<^typ>\<open>string\<close> holding its UTF-8 bytes: the
  programs compare strings for equality, cut them at the ASCII full stop and keep ASCII
  digits, and UTF-8 never uses an ASCII byte inside the encoding of another character.
  The exceptions the modelled code can raise are values of \<open>error\<close>; a fallible
  function returns \<open>error + 'a\<close> with \<open>Inl\<close> for the raised exception.
\<close>

datatype error = ValueError | ReadTimeout | ConnectionError | HTTPError

definition is_digit :: "char \<Rightarrow> bool" where
  "is_digit c \<longleftrightarrow> c \<in> set ''0123456789''"

text \<open>
  The built-in \<open>int\<close> is not part of the repository. The programs apply it to strings
  only, and on a string it either returns an integer or raises \<open>ValueError\<close>. What it
  does is a parameter of the model, written \<open>py_int\<close> throughout:
  \<open>py_int s = Some n\<close> when \<open>int(s)\<close> returns \<open>n\<close>, and \<open>py_int s = None\<close> when
  it raises. Nothing is assumed about which strings it accepts. \<open>int_of py_int s\<close> is the
  call \<open>int(s)\<close> as the programs see it.
\<close>

definition int_of :: "(string \<Rightarrow> int option) \<Rightarrow> string \<Rightarrow> error + int" where
  "int_of py_int s = (case py_int s of None \<Rightarrow> Inl ValueError | Some n \<Rightarrow> Inr n)"

text \<open>\<open>s.split(sep)\<close> for a one-character separator: the pieces between the separators.\<close>

fun split :: "char \<Rightarrow> string \<Rightarrow> string list" where
  "split sep [] = [[]]"
| "split sep (c # cs) =
     (if c = sep then [] # split sep cs
      else (case split sep cs of [] \<Rightarrow> [[c]] | piece # pieces \<Rightarrow> (c # piece) # pieces))"

text \<open>\<open>re.sub("[^0-9]", "", s)\<close>: every character that is not an ASCII digit is deleted.\<close>

definition re_sub_non_digits :: "string \<Rightarrow> string" where
  "re_sub_non_digits s = filter is_digit s"

section \<open>seller.py: price\_conversion and divide\<close>

text \<open>
  \<^verbatim>\<open>return re.sub("[^0-9]", "", price.split(".")[0])\<close>

  \<open>split\<close> never returns the empty list, so the index 0 always exists; the first
  branch of the case below is never taken (lemma \<open>split_not_Nil\<close>).
\<close>

definition price_conversion :: "string \<Rightarrow> string" where
  "price_conversion price =
     re_sub_non_digits (case split (CHR ''.'') price of [] \<Rightarrow> [] | piece # _ \<Rightarrow> piece)"

text \<open>
  \<^verbatim>\<open>for i in range(0, len(lst), n): yield lst[i: i + n]\<close>

  \<open>divide_from lst n i\<close> is the list of the values yielded from index \<open>i\<close> on, for a
  positive step \<open>n\<close>; the slice \<open>lst[i: i + n]\<close> is \<open>take n (drop i lst)\<close>. A step of
  0 makes \<open>range\<close> raise \<open>ValueError\<close> when the generator is first advanced, and a
  negative step gives an empty range. Every caller consumes the generator at once with
  \<open>list(...)\<close>, so \<open>divide\<close> returns the list of all chunks.
\<close>

function divide_from :: "'a list \<Rightarrow> nat \<Rightarrow> nat \<Rightarrow> 'a list list" where
  "divide_from lst n i =
     (if 0 < n \<and> i < length lst then take n (drop i lst) # divide_from lst n (i + n) else [])"
  by pat_completeness auto
termination
  by (relation "measure (\<lambda>(lst, n, i). length lst - i)") auto

declare divide_from.simps [simp del]

definition divide :: "'a list \<Rightarrow> int \<Rightarrow> error + 'a list list" where
  "divide lst n =
     (if n = 0 then Inl ValueError
      else if n < 0 then Inr []
      else Inr (divide_from lst (nat n) 0))"

section \<open>Feed rows and upload records\<close>

text \<open>
  A feed row is one dictionary of \<open>download_stock()\<close>; the spreadsheet reader gives
  every row every column. The fields the programs read are the offer code (key \<open>Kod\<close>
  in Cyrillic), the raw quantity (\<open>Kolichestvo\<close>) and the raw price (\<open>Tsena\<close>); the
  display name is never read. The feed exposes them as strings, on which \<open>str(...)\<close> is
  the identity, so \<open>str(watch.get(key))\<close> is the field itself. (A cell read as an
  integer behaves in \<open>str\<close>, \<open>in\<close> and \<open>int\<close> as its decimal text does.) The
  dictionaries the programs build for the marketplaces are records with the keys as
  field names.
\<close>

record watch =
  kod :: string
  kolichestvo :: string
  tsena :: string

text \<open>seller.py, \<open>create_stocks\<close>: \<^verbatim>\<open>{"offer_id": ..., "stock": ...}\<close>\<close>

record stock_record =
  offer_id :: string
  stock :: int

text \<open>seller.py, \<open>create_prices\<close>: the price dictionary with its fixed fields.\<close>

record price_record =
  auto_action_enabled :: string
  currency_code :: string
  price_offer_id :: string
  old_price :: string
  price :: string

text \<open>market.py, \<open>create_stocks\<close>: \<^verbatim>\<open>{"sku", "warehouseId", "items": [{"count", "type", "updatedAt"}]}\<close>\<close>

record item =
  item_count :: int
  item_type :: string
  updatedAt :: string

record sku_record =
  sku :: string
  warehouseId :: string
  items :: "item list"

text \<open>market.py, \<open>create_prices\<close>: \<^verbatim>\<open>{"id", "price": {"value", "currencyId"}}\<close>\<close>

record money =
  money_value :: int
  currencyId :: string

record offer_price =
  offer_price_id :: string
  offer_price :: money

section \<open>seller.py: create\_stocks and create\_prices\<close>

text \<open>
  The quantity rule of \<open>create_stocks\<close> (the same lines in both files):
  \<^verbatim>\<open>
  count = str(watch.get(QUANTITY))
  if count == ">10":   stock = 100
  elif count == "1":   stock = 0
  else:                stock = int(watch.get(QUANTITY))
  \<close>
\<close>

definition stock_of :: "(string \<Rightarrow> int option) \<Rightarrow> watch \<Rightarrow> error + int" where
  "stock_of py_int w =
     (let count = kolichestvo w in
      if count = ''>10'' then Inr 100
      else if count = ''1'' then Inr 0
      else int_of py_int (kolichestvo w))"

text \<open>
  The first loop of \<open>create_stocks\<close>, with the two lists it mutates passed as state:
  \<open>stocks\<close> grows by \<open>append\<close>, and \<open>offer_ids\<close>, the caller's own list, loses the
  first occurrence of the code by \<open>offer_ids.remove(...)\<close>. A failing \<open>int(...)\<close>
  leaves the function at once.
\<close>

fun stocks_loop ::
  "(string \<Rightarrow> int option) \<Rightarrow> watch list \<Rightarrow> stock_record list \<Rightarrow> string list \<Rightarrow> error + stock_record list \<times> string list"
where
  "stocks_loop py_int [] stocks offer_ids = Inr (stocks, offer_ids)"
| "stocks_loop py_int (w # watch_remnants) stocks offer_ids =
     (if kod w \<in> set offer_ids then
        (case stock_of py_int w of
           Inl e \<Rightarrow> Inl e
         | Inr st \<Rightarrow>
             stocks_loop py_int watch_remnants
               (stocks @ [\<lparr>offer_id = kod w, stock = st\<rparr>])
               (remove1 (kod w) offer_ids))
      else stocks_loop py_int watch_remnants stocks offer_ids)"

text \<open>
  \<open>create_stocks\<close> returns the list of stock records together with the caller's
  \<open>offer_ids\<close> list as the call leaves it. The second loop appends a zero record for
  every id still in that list.
\<close>

definition create_stocks ::
  "(string \<Rightarrow> int option) \<Rightarrow> watch list \<Rightarrow> string list \<Rightarrow> error + stock_record list \<times> string list"
where
  "create_stocks py_int watch_remnants offer_ids =
     (case stocks_loop py_int watch_remnants [] offer_ids of
        Inl e \<Rightarrow> Inl e
      | Inr (stocks, offer_ids') \<Rightarrow>
          Inr (stocks @ map (\<lambda>i. \<lparr>offer_id = i, stock = 0\<rparr>) offer_ids', offer_ids'))"

text \<open>
  \<open>create_prices\<close> only reads \<open>offer_ids\<close>; the list is returned beside the prices to
  show what the caller holds afterwards.
\<close>

fun prices_loop :: "watch list \<Rightarrow> price_record list \<Rightarrow> string list \<Rightarrow> price_record list" where
  "prices_loop [] prices offer_ids = prices"
| "prices_loop (w # watch_remnants) prices offer_ids =
     (if kod w \<in> set offer_ids then
        prices_loop watch_remnants
          (prices @ [\<lparr>auto_action_enabled = ''UNKNOWN'', currency_code = ''RUB'',
                      price_offer_id = kod w, old_price = ''0'',
                      price = price_conversion (tsena w)\<rparr>])
          offer_ids
      else prices_loop watch_remnants prices offer_ids)"

definition create_prices :: "watch list \<Rightarrow> string list \<Rightarrow> price_record list \<times> string list" where
  "create_prices watch_remnants offer_ids = (prices_loop watch_remnants [] offer_ids, offer_ids)"

section \<open>market.py: create\_stocks and create\_prices\<close>

text \<open>
  The same loops with the second marketplace's dictionaries. \<open>date\<close> is the reading
  of the clock taken once at the start of \<open>create_stocks\<close>.
\<close>

definition sku_of :: "string \<Rightarrow> string \<Rightarrow> string \<Rightarrow> int \<Rightarrow> sku_record" where
  "sku_of warehouse_id date code st =
     \<lparr>sku = code, warehouseId = warehouse_id,
      items = [\<lparr>item_count = st, item_type = ''FIT'', updatedAt = date\<rparr>]\<rparr>"

fun market_stocks_loop ::
  "(string \<Rightarrow> int option) \<Rightarrow> string \<Rightarrow> string \<Rightarrow> watch list \<Rightarrow> sku_record list \<Rightarrow> string list
     \<Rightarrow> error + sku_record list \<times> string list"
where
  "market_stocks_loop py_int warehouse_id date [] stocks offer_ids = Inr (stocks, offer_ids)"
| "market_stocks_loop py_int warehouse_id date (w # watch_remnants) stocks offer_ids =
     (if kod w \<in> set offer_ids then
        (case stock_of py_int w of
           Inl e \<Rightarrow> Inl e
         | Inr st \<Rightarrow>
             market_stocks_loop py_int warehouse_id date watch_remnants
               (stocks @ [sku_of warehouse_id date (kod w) st])
               (remove1 (kod w) offer_ids))
      else market_stocks_loop py_int warehouse_id date watch_remnants stocks offer_ids)"

definition market_create_stocks ::
  "(string \<Rightarrow> int option) \<Rightarrow> watch list \<Rightarrow> string list \<Rightarrow> string \<Rightarrow> string
     \<Rightarrow> error + sku_record list \<times> string list"
where
  "market_create_stocks py_int watch_remnants offer_ids warehouse_id date =
     (case market_stocks_loop py_int warehouse_id date watch_remnants [] offer_ids of
        Inl e \<Rightarrow> Inl e
      | Inr (stocks, offer_ids') \<Rightarrow>
          Inr (stocks @ map (\<lambda>i. sku_of warehouse_id date i 0) offer_ids', offer_ids'))"

text \<open>\<^verbatim>\<open>"value": int(price_conversion(watch.get(PRICE)))\<close> can raise \<open>ValueError\<close>.\<close>

fun market_prices_loop ::
  "(string \<Rightarrow> int option) \<Rightarrow> watch list \<Rightarrow> offer_price list \<Rightarrow> string list
     \<Rightarrow> error + offer_price list"
where
  "market_prices_loop py_int [] prices offer_ids = Inr prices"
| "market_prices_loop py_int (w # watch_remnants) prices offer_ids =
     (if kod w \<in> set offer_ids then
        (case int_of py_int (price_conversion (tsena w)) of
           Inl e \<Rightarrow> Inl e
         | Inr v \<Rightarrow>
             market_prices_loop py_int watch_remnants
               (prices @ [\<lparr>offer_price_id = kod w,
                           offer_price = \<lparr>money_value = v, currencyId = ''RUR''\<rparr>\<rparr>])
               offer_ids)
      else market_prices_loop py_int watch_remnants prices offer_ids)"

definition market_create_prices ::
  "(string \<Rightarrow> int option) \<Rightarrow> watch list \<Rightarrow> string list
     \<Rightarrow> error + offer_price list \<times> string list"
where
  "market_create_prices py_int watch_remnants offer_ids =
     (case market_prices_loop py_int watch_remnants [] offer_ids of
        Inl e \<Rightarrow> Inl e
      | Inr prices \<Rightarrow> Inr (prices, offer_ids))"

section \<open>Uploads and the orchestration\<close>

text \<open>
  The update calls (\<open>update_stocks\<close>, \<open>update_price\<close>) send one HTTP request each.
  A run is described by the list of update requests it has sent. The world outside the
  programs is a record: what \<open>get_offer_ids\<close> returns for an account, what
  \<open>download_stock()\<close> returns, the successive readings of the clock, whether the
  marketplace makes an update request raise, given the requests sent before it, and what
  the interpreter's built-in \<open>int\<close> does on a string.
  Credentials other than the account (campaign) identifier do not influence the
  programs and are left out.
\<close>

datatype request =
  Ozon_stocks "stock_record list"
| Ozon_prices "price_record list"
| Market_stocks string "sku_record list"
| Market_prices string "offer_price list"

record env =
  get_offer_ids :: "string \<Rightarrow> error + string list"
  download_stock :: "error + watch list"
  utcnow :: "nat \<Rightarrow> string"
  remote :: "request list \<Rightarrow> request \<Rightarrow> error option"
  builtin_int :: "string \<Rightarrow> int option"

fun batch_length :: "request \<Rightarrow> nat" where
  "batch_length (Ozon_stocks batch) = length batch"
| "batch_length (Ozon_prices batch) = length batch"
| "batch_length (Market_stocks campaign_id batch) = length batch"
| "batch_length (Market_prices campaign_id batch) = length batch"

fun is_price_request :: "request \<Rightarrow> bool" where
  "is_price_request (Ozon_stocks batch) = False"
| "is_price_request (Ozon_prices batch) = True"
| "is_price_request (Market_stocks campaign_id batch) = False"
| "is_price_request (Market_prices campaign_id batch) = True"

text \<open>
  \<^verbatim>\<open>for some in list(divide(records, n)): update(some, ...)\<close>: the batches are
  sent one after the other; the first request that raises ends the loop, and the
  exception goes to the caller.
\<close>

fun send_each ::
  "(request list \<Rightarrow> request \<Rightarrow> error option) \<Rightarrow> request list \<Rightarrow> request list
     \<Rightarrow> request list \<times> (error + unit)"
where
  "send_each rem sent [] = (sent, Inr ())"
| "send_each rem sent (rq # rqs) =
     (case rem sent rq of
        Some e \<Rightarrow> (sent @ [rq], Inl e)
      | None \<Rightarrow> send_each rem (sent @ [rq]) rqs)"

text \<open>
  The places where a chunk size is handed to \<open>divide\<close>, with the literal written
  there: seller.py lines 392, 396, 342 and 377, market.py lines 437 and 446 (the two
  stock uploads of \<open>main\<close>), 357 and 415.
\<close>

datatype upload_step =
  Seller_main_stocks
| Seller_main_prices
| Seller_upload_prices
| Seller_upload_stocks
| Market_main_stocks
| Market_upload_prices
| Market_upload_stocks

fun chunk_size :: "upload_step \<Rightarrow> int" where
  "chunk_size Seller_main_stocks = 100"
| "chunk_size Seller_main_prices = 900"
| "chunk_size Seller_upload_prices = 1000"
| "chunk_size Seller_upload_stocks = 100"
| "chunk_size Market_main_stocks = 2000"
| "chunk_size Market_upload_prices = 500"
| "chunk_size Market_upload_stocks = 2000"

text \<open>
  The three \<open>except\<close> clauses of both \<open>main\<close> functions print a line and let
  \<open>main\<close> return; \<open>Raised\<close> is an exception that leaves \<open>main\<close>.
\<close>

datatype message = Timeout_message | Connection_message error | Error_2_message error

datatype outcome = Returned | Printed message | Raised error

fun handler :: "error \<Rightarrow> outcome" where
  "handler ReadTimeout = Printed Timeout_message"
| "handler ConnectionError = Printed (Connection_message ConnectionError)"
| "handler e = Printed (Error_2_message e)"

subsection \<open>seller.py\<close>

text \<open>
  The body of the \<open>try\<close> block of \<open>main\<close>. The list \<open>offer_ids\<close> that
  \<open>create_prices\<close> receives is the one \<open>create_stocks\<close> has worked on.
\<close>

definition seller_main_try :: "env \<Rightarrow> string \<Rightarrow> request list \<times> (error + unit)" where
  "seller_main_try world client_id =
     (case get_offer_ids world client_id of
        Inl e \<Rightarrow> ([], Inl e)
      | Inr offer_ids \<Rightarrow>
     (case download_stock world of
        Inl e \<Rightarrow> ([], Inl e)
      | Inr watch_remnants \<Rightarrow>
     (case create_stocks (builtin_int world) watch_remnants offer_ids of
        Inl e \<Rightarrow> ([], Inl e)
      | Inr (stocks, offer_ids') \<Rightarrow>
     (case divide stocks (chunk_size Seller_main_stocks) of
        Inl e \<Rightarrow> ([], Inl e)
      | Inr stock_batches \<Rightarrow>
     (case send_each (remote world) [] (map Ozon_stocks stock_batches) of
        (sent, Inl e) \<Rightarrow> (sent, Inl e)
      | (sent, Inr _) \<Rightarrow>
     (case create_prices watch_remnants offer_ids' of
        (prices, offer_ids'') \<Rightarrow>
     (case divide prices (chunk_size Seller_main_prices) of
        Inl e \<Rightarrow> (sent, Inl e)
      | Inr price_batches \<Rightarrow>
          send_each (remote world) sent (map Ozon_prices price_batches))))))))"

definition seller_main :: "env \<Rightarrow> string \<Rightarrow> request list \<times> outcome" where
  "seller_main world client_id =
     (case seller_main_try world client_id of
        (sent, Inl e) \<Rightarrow> (sent, handler e)
      | (sent, Inr _) \<Rightarrow> (sent, Returned))"

text \<open>
  The bodies of the two \<open>async def\<close> functions, as they run once awaited, starting
  from the requests \<open>sent\<close> so far. Nothing in seller.py calls them.
\<close>

definition upload_prices ::
  "env \<Rightarrow> string \<Rightarrow> watch list \<Rightarrow> request list \<Rightarrow> request list \<times> (error + price_record list)"
where
  "upload_prices world client_id watch_remnants sent =
     (case get_offer_ids world client_id of
        Inl e \<Rightarrow> (sent, Inl e)
      | Inr offer_ids \<Rightarrow>
     (case create_prices watch_remnants offer_ids of
        (prices, offer_ids') \<Rightarrow>
     (case divide prices (chunk_size Seller_upload_prices) of
        Inl e \<Rightarrow> (sent, Inl e)
      | Inr price_batches \<Rightarrow>
     (case send_each (remote world) sent (map Ozon_prices price_batches) of
        (sent', Inl e) \<Rightarrow> (sent', Inl e)
      | (sent', Inr _) \<Rightarrow> (sent', Inr prices)))))"

definition upload_stocks ::
  "env \<Rightarrow> string \<Rightarrow> watch list \<Rightarrow> request list
     \<Rightarrow> request list \<times> (error + stock_record list \<times> stock_record list)"
where
  "upload_stocks world client_id watch_remnants sent =
     (case get_offer_ids world client_id of
        Inl e \<Rightarrow> (sent, Inl e)
      | Inr offer_ids \<Rightarrow>
     (case create_stocks (builtin_int world) watch_remnants offer_ids of
        Inl e \<Rightarrow> (sent, Inl e)
      | Inr (stocks, offer_ids') \<Rightarrow>
     (case divide stocks (chunk_size Seller_upload_stocks) of
        Inl e \<Rightarrow> (sent, Inl e)
      | Inr stock_batches \<Rightarrow>
     (case send_each (remote world) sent (map Ozon_stocks stock_batches) of
        (sent', Inl e) \<Rightarrow> (sent', Inl e)
      | (sent', Inr _) \<Rightarrow> (sent', Inr (filter (\<lambda>s. stock s \<noteq> 0) stocks, stocks))))))"

subsection \<open>market.py\<close>

record config =
  campaign_fbs_id :: string
  campaign_dbs_id :: string
  warehouse_fbs_id :: string
  warehouse_dbs_id :: string

definition market_upload_prices ::
  "env \<Rightarrow> string \<Rightarrow> watch list \<Rightarrow> request list \<Rightarrow> request list \<times> (error + offer_price list)"
where
  "market_upload_prices world campaign_id watch_remnants sent =
     (case get_offer_ids world campaign_id of
        Inl e \<Rightarrow> (sent, Inl e)
      | Inr offer_ids \<Rightarrow>
     (case market_create_prices (builtin_int world) watch_remnants offer_ids of
        Inl e \<Rightarrow> (sent, Inl e)
      | Inr (prices, offer_ids') \<Rightarrow>
     (case divide prices (chunk_size Market_upload_prices) of
        Inl e \<Rightarrow> (sent, Inl e)
      | Inr price_batches \<Rightarrow>
     (case send_each (remote world) sent (map (Market_prices campaign_id) price_batches) of
        (sent', Inl e) \<Rightarrow> (sent', Inl e)
      | (sent', Inr _) \<Rightarrow> (sent', Inr prices)))))"

definition market_upload_stocks ::
  "env \<Rightarrow> string \<Rightarrow> string \<Rightarrow> watch list \<Rightarrow> request list
     \<Rightarrow> request list \<times> (error + sku_record list \<times> sku_record list)"
where
  "market_upload_stocks world campaign_id warehouse_id watch_remnants sent =
     (case get_offer_ids world campaign_id of
        Inl e \<Rightarrow> (sent, Inl e)
      | Inr offer_ids \<Rightarrow>
     (case market_create_stocks (builtin_int world) watch_remnants offer_ids warehouse_id (utcnow world 0) of
        Inl e \<Rightarrow> (sent, Inl e)
      | Inr (stocks, offer_ids') \<Rightarrow>
     (case divide stocks (chunk_size Market_upload_stocks) of
        Inl e \<Rightarrow> (sent, Inl e)
      | Inr stock_batches \<Rightarrow>
     (case send_each (remote world) sent (map (Market_stocks campaign_id) stock_batches) of
        (sent', Inl e) \<Rightarrow> (sent', Inl e)
      | (sent', Inr _) \<Rightarrow>
          (sent', Inr (filter (\<lambda>s. item_count (hd (items s)) \<noteq> 0) stocks, stocks))))))"

text \<open>
  In \<open>market_upload_stocks\<close> above, \<open>stock.get("items")[0]\<close> reads the one item
  that every record of \<open>create_stocks\<close> has.
\<close>

text \<open>
  Calling an \<open>async def\<close> function runs none of its body: the call returns a coroutine
  object that holds the body, and the body runs only when the coroutine is awaited or
  handed to an event loop.
\<close>

datatype 'r coroutine = Coroutine "request list \<Rightarrow> request list \<times> (error + 'r)"

fun await :: "'r coroutine \<Rightarrow> request list \<Rightarrow> request list \<times> (error + 'r)" where
  "await (Coroutine body) sent = body sent"

text \<open>
  The body of the \<open>try\<close> block of \<open>main\<close>. The statements
  \<^verbatim>\<open>upload_prices(watch_remnants, campaign_fbs_id, market_token)\<close> and its DBS twin
  are bare calls of the \<open>async def\<close>: each makes a coroutine, which is dropped; there
  is no \<open>await\<close> and no event loop in the file.
\<close>

definition market_main_try ::
  "env \<Rightarrow> config \<Rightarrow> watch list \<Rightarrow> request list \<times> (error + unit)"
where
  "market_main_try world cfg watch_remnants =
     (case get_offer_ids world (campaign_fbs_id cfg) of
        Inl e \<Rightarrow> ([], Inl e)
      | Inr offer_ids \<Rightarrow>
     (case market_create_stocks (builtin_int world) watch_remnants offer_ids (warehouse_fbs_id cfg) (utcnow world 0) of
        Inl e \<Rightarrow> ([], Inl e)
      | Inr (stocks, offer_ids') \<Rightarrow>
     (case divide stocks (chunk_size Market_main_stocks) of
        Inl e \<Rightarrow> ([], Inl e)
      | Inr stock_batches \<Rightarrow>
     (case send_each (remote world) [] (map (Market_stocks (campaign_fbs_id cfg)) stock_batches) of
        (sent, Inl e) \<Rightarrow> (sent, Inl e)
      | (sent, Inr _) \<Rightarrow>
     (let fbs_coroutine =
        Coroutine (market_upload_prices world (campaign_fbs_id cfg) watch_remnants) in
     (case get_offer_ids world (campaign_dbs_id cfg) of
        Inl e \<Rightarrow> (sent, Inl e)
      | Inr offer_ids \<Rightarrow>
     (case market_create_stocks (builtin_int world) watch_remnants offer_ids (warehouse_dbs_id cfg) (utcnow world 1) of
        Inl e \<Rightarrow> (sent, Inl e)
      | Inr (stocks, offer_ids') \<Rightarrow>
     (case divide stocks (chunk_size Market_main_stocks) of
        Inl e \<Rightarrow> (sent, Inl e)
      | Inr stock_batches \<Rightarrow>
     (case send_each (remote world) sent (map (Market_stocks (campaign_dbs_id cfg)) stock_batches) of
        (sent', Inl e) \<Rightarrow> (sent', Inl e)
      | (sent', Inr _) \<Rightarrow>
     (let dbs_coroutine =
        Coroutine (market_upload_prices world (campaign_dbs_id cfg) watch_remnants) in
      (sent', Inr ())))))))))))"

text \<open>\<open>download_stock()\<close> is called before the \<open>try\<close> block: its exception leaves \<open>main\<close>.\<close>

definition market_main :: "env \<Rightarrow> config \<Rightarrow> request list \<times> outcome" where
  "market_main world cfg =
     (case download_stock world of
        Inl e \<Rightarrow> ([], Raised e)
      | Inr watch_remnants \<Rightarrow>
     (case market_main_try world cfg watch_remnants of
        (sent, Inl e) \<Rightarrow> (sent, handler e)
      | (sent, Inr _) \<Rightarrow> (sent, Returned)))"

section \<open>Notions used to state the properties\<close>

text \<open>
  \<open>first_per_code seen feed\<close> keeps the rows of the feed whose code occurs neither in
  \<open>seen\<close> nor in an earlier row: the first row of every code.
\<close>

fun first_per_code :: "string list \<Rightarrow> watch list \<Rightarrow> watch list" where
  "first_per_code seen [] = []"
| "first_per_code seen (w # ws) =
     (if kod w \<in> set seen then first_per_code seen ws
      else w # first_per_code (kod w # seen) ws)"

text \<open>The rows that give a stock record: the first row of every code of the catalog.\<close>

definition covering_rows :: "string list \<Rightarrow> watch list \<Rightarrow> watch list" where
  "covering_rows offer_ids feed = filter (\<lambda>w. kod w \<in> set offer_ids) (first_per_code [] feed)"

text \<open>The ids of the catalog that no feed row carries, in catalog order.\<close>

definition uncovered_ids :: "string list \<Rightarrow> watch list \<Rightarrow> string list" where
  "uncovered_ids offer_ids feed = filter (\<lambda>i. i \<notin> kod ` set feed) offer_ids"

text \<open>The two prices of the examples, with the Cyrillic currency word in UTF-8.\<close>

definition rub :: string where
  "rub = [CHR 0xD1, CHR 0x80, CHR 0xD1, CHR 0x83, CHR 0xD0, CHR 0xB1] @ ''.''"

definition price_5990 :: string where
  "price_5990 = ''5'990.00 '' @ rub"

definition price_10990 :: string where
  "price_10990 = ''10'990.00 '' @ rub"

text \<open>The stock record of the first marketplace, rewritten as the second one writes it.\<close>

definition to_sku :: "string \<Rightarrow> string \<Rightarrow> stock_record \<Rightarrow> sku_record" where
  "to_sku warehouse_id date s = sku_of warehouse_id date (offer_id s) (stock s)"

text \<open>The feed and the catalog of the examples in the docstrings.\<close>

definition docstring_remnants :: "watch list" where
  "docstring_remnants =
     [\<lparr>kod = ''123'', kolichestvo = ''5'', tsena = price_5990\<rparr>,
      \<lparr>kod = ''987'', kolichestvo = ''10'', tsena = price_10990\<rparr>]"

definition docstring_offer_ids :: "string list" where
  "docstring_offer_ids = [''123'', ''789'']"

text \<open>The price dictionary seller.py builds for one feed row.\<close>

definition price_record_of :: "watch \<Rightarrow> price_record" where
  "price_record_of w =
     \<lparr>auto_action_enabled = ''UNKNOWN'', currency_code = ''RUB'', price_offer_id = kod w,
      old_price = ''0'', price = price_conversion (tsena w)\<rparr>"

text \<open>
  What \<open>int\<close> does on the strings the examples hand to it: \<open>int("5")\<close> is 5,
  \<open>int("7")\<close> is 7, \<open>int("10")\<close> is 10, \<open>int("5990")\<close> is 5990 and
  \<open>int("10990")\<close> is 10990, while \<open>int("")\<close> and \<open>int("x")\<close> raise
  \<open>ValueError\<close>. The examples apply it to no other string; on every other string this
  table has no entry.
\<close>

definition example_int :: "string \<Rightarrow> int option" where
  "example_int s =
     (if s = ''5'' then Some 5
      else if s = ''7'' then Some 7
      else if s = ''10'' then Some 10
      else if s = ''5990'' then Some 5990
      else if s = ''10990'' then Some 10990
      else None)"

text \<open>
  A world for the examples: every account lists the catalog of the docstrings, the feed is
  the one of the docstrings, the clock shows the time of the docstrings, no request
  fails, and \<open>int\<close> is the table above.
\<close>

definition docstring_world :: env where
  "docstring_world =
     \<lparr>get_offer_ids = (\<lambda>account. Inr docstring_offer_ids),
      download_stock = Inr docstring_remnants,
      utcnow = (\<lambda>k. ''2023-09-09T21:07:47Z''),
      remote = (\<lambda>sent rq. None),
      builtin_int = example_int\<rparr>"

definition docstring_config :: config where
  "docstring_config =
     \<lparr>campaign_fbs_id = ''fbs'', campaign_dbs_id = ''dbs'',
      warehouse_fbs_id = ''warehouse_fbs'', warehouse_dbs_id = ''warehouse_dbs''\<rparr>"

section \<open>Facts about strings\<close>

lemma split_not_Nil: "split sep s \<noteq> []"
  by (induction s) (auto split: list.splits)

lemma split_first: "split sep s = takeWhile (\<lambda>c. c \<noteq> sep) s # tl (split sep s)"
proof (induction s)
  case Nil
  show ?case by simp
next
  case (Cons c cs)
  show ?case
  proof (cases "c = sep")
    case True
    then show ?thesis by simp
  next
    case False
    obtain piece pieces where sp: "split sep cs = piece # pieces"
      using split_not_Nil [of sep cs] by (cases "split sep cs") auto
    with Cons.IH have "piece = takeWhile (\<lambda>c. c \<noteq> sep) cs" by simp
    with False sp show ?thesis by simp
  qed
qed

lemma price_conversion_eq:
  "price_conversion raw = filter is_digit (takeWhile (\<lambda>c. c \<noteq> CHR ''.'') raw)"
proof -
  have "split (CHR ''.'') raw
        = takeWhile (\<lambda>c. c \<noteq> CHR ''.'') raw # tl (split (CHR ''.'') raw)"
    by (rule split_first)
  then obtain pieces where
    "split (CHR ''.'') raw = takeWhile (\<lambda>c. c \<noteq> CHR ''.'') raw # pieces"
    by blast
  then show ?thesis
    by (simp add: price_conversion_def re_sub_non_digits_def)
qed

section \<open>Facts about divide\<close>

lemma divide_from_concat: "0 < n \<Longrightarrow> concat (divide_from lst n i) = drop i lst"
proof (induction lst n i rule: divide_from.induct)
  case (1 lst n i)
  show ?case
  proof (cases "i < length lst")
    case True
    with 1 have "concat (divide_from lst n (i + n)) = drop (i + n) lst" by simp
    then have "concat (divide_from lst n i) = take n (drop i lst) @ drop (i + n) lst"
      using True "1.prems" by (simp add: divide_from.simps [of lst n i])
    also have "drop (i + n) lst = drop n (drop i lst)"
      by (simp add: add.commute)
    finally show ?thesis by (simp only: append_take_drop_id)
  next
    case False
    then show ?thesis by (simp add: divide_from.simps [of lst n i])
  qed
qed

lemma divide_from_Nil: "\<not> (0 < n \<and> i < length lst) \<Longrightarrow> divide_from lst n i = []"
  by (simp add: divide_from.simps [of lst n i])

lemma divide_from_Cons:
  "0 < n \<Longrightarrow> i < length lst \<Longrightarrow>
   divide_from lst n i = take n (drop i lst) # divide_from lst n (i + n)"
  by (simp add: divide_from.simps [of lst n i])

lemma divide_from_empty_iff: "0 < n \<Longrightarrow> divide_from lst n i = [] \<longleftrightarrow> length lst \<le> i"
  by (simp add: divide_from.simps [of lst n i])

lemma divide_from_butlast:
  "0 < n \<Longrightarrow> c \<in> set (butlast (divide_from lst n i)) \<Longrightarrow> length c = n"
proof (induction lst n i rule: divide_from.induct)
  case (1 lst n i)
  show ?case
  proof (cases "i < length lst")
    case False
    with 1 show ?thesis by (simp add: divide_from_Nil)
  next
    case True
    note eq = divide_from_Cons [OF "1.prems"(1) True]
    show ?thesis
    proof (cases "i + n < length lst")
      case False
      then have "divide_from lst n (i + n) = []" by (simp add: divide_from_Nil)
      with eq "1.prems" show ?thesis by simp
    next
      case far: True
      then have ne: "divide_from lst n (i + n) \<noteq> []"
        using "1.prems"(1) by (simp add: divide_from_empty_iff)
      with eq "1.prems" have "c = take n (drop i lst) \<or> c \<in> set (butlast (divide_from lst n (i + n)))"
        by auto
      then show ?thesis
      proof
        assume "c = take n (drop i lst)"
        with far show ?thesis by simp
      next
        assume "c \<in> set (butlast (divide_from lst n (i + n)))"
        with 1 True show ?thesis by simp
      qed
    qed
  qed
qed

lemma divide_from_last:
  "0 < n \<Longrightarrow> i < length lst \<Longrightarrow>
   length (last (divide_from lst n i))
     = (if (length lst - i) mod n = 0 then n else (length lst - i) mod n)"
proof (induction lst n i rule: divide_from.induct)
  case (1 lst n i)
  note eq = divide_from_Cons [OF "1.prems"]
  show ?case
  proof (cases "i + n < length lst")
    case False
    then have "divide_from lst n (i + n) = []" by (simp add: divide_from_Nil)
    with eq have "length (last (divide_from lst n i)) = length lst - i"
      using False by simp
    moreover have "0 < length lst - i" "length lst - i \<le> n"
      using "1.prems" False by simp_all
    ultimately show ?thesis
      by (cases "length lst - i = n") simp_all
  next
    case True
    then have ne: "divide_from lst n (i + n) \<noteq> []"
      using "1.prems"(1) by (simp add: divide_from_empty_iff)
    have "length (last (divide_from lst n (i + n)))
          = (if (length lst - (i + n)) mod n = 0 then n else (length lst - (i + n)) mod n)"
      using 1 True by simp
    moreover have "(length lst - (i + n)) mod n = (length lst - i) mod n"
      using True by (simp add: le_mod_geq)
    ultimately show ?thesis using eq ne by simp
  qed
qed

lemma divide_from_nth:
  "0 < n \<Longrightarrow> k < length (divide_from lst n i) \<Longrightarrow>
   divide_from lst n i ! k = take n (drop (i + k * n) lst)"
proof (induction lst n i arbitrary: k rule: divide_from.induct)
  case (1 lst n i)
  show ?case
  proof (cases "i < length lst")
    case False
    with 1 show ?thesis by (simp add: divide_from_Nil)
  next
    case True
    note eq = divide_from_Cons [OF "1.prems"(1) True]
    show ?thesis
    proof (cases k)
      case 0
      with eq show ?thesis by simp
    next
      case (Suc j)
      with eq "1.prems" have "j < length (divide_from lst n (i + n))" by simp
      with 1 True have "divide_from lst n (i + n) ! j = take n (drop (i + n + j * n) lst)"
        by simp
      with eq Suc show ?thesis by (simp add: add.assoc add.commute)
    qed
  qed
qed

section \<open>Facts about the stock loop\<close>

lemma int_of_error: "int_of py_int s = Inl e \<Longrightarrow> e = ValueError"
  by (simp add: int_of_def split: option.splits)

lemma stock_of_error: "stock_of py_int w = Inl e \<Longrightarrow> e = ValueError"
  by (auto simp: stock_of_def Let_def dest: int_of_error split: if_splits)

lemma first_per_code_codes:
  "kod ` set (first_per_code seen feed) = kod ` set feed - set seen"
  by (induction feed arbitrary: seen) auto

lemma first_per_code_distinct: "distinct (map kod (first_per_code seen feed))"
  by (induction feed arbitrary: seen) (auto simp: first_per_code_codes)

lemma first_per_code_filter_code:
  "filter (\<lambda>w. kod w = c) (first_per_code seen feed)
   = (if c \<in> set seen then []
      else (case find (\<lambda>w. kod w = c) feed of None \<Rightarrow> [] | Some w \<Rightarrow> [w]))"
proof (induction feed arbitrary: seen)
  case Nil
  show ?case by simp
next
  case (Cons w ws)
  show ?case
  proof (cases "kod w \<in> set seen")
    case True
    with Cons show ?thesis by auto
  next
    case False
    show ?thesis
    proof (cases "kod w = c")
      case True
      with False Cons [of "kod w # seen"] show ?thesis by simp
    next
      case ne: False
      with False Cons [of "kod w # seen"] show ?thesis by auto
    qed
  qed
qed

lemma remove1_filter_seen:
  assumes "distinct ids"
  shows "remove1 c (filter (\<lambda>i. i \<notin> set seen) ids) = filter (\<lambda>i. i \<notin> set (c # seen)) ids"
proof -
  have "distinct (filter (\<lambda>i. i \<notin> set seen) ids)" using assms by simp
  then have "remove1 c (filter (\<lambda>i. i \<notin> set seen) ids)
             = filter (\<lambda>i. c \<noteq> i) (filter (\<lambda>i. i \<notin> set seen) ids)"
    by (simp add: distinct_remove1_removeAll removeAll_filter_not_eq)
  also have "\<dots> = filter (\<lambda>i. i \<notin> set (c # seen)) ids"
    by (auto intro: filter_cong)
  finally show ?thesis .
qed

lemma filter_seen_absent:
  "c \<notin> set ids \<Longrightarrow> filter (\<lambda>i. i \<notin> set (c # seen)) ids = filter (\<lambda>i. i \<notin> set seen) ids"
  by (auto intro: filter_cong)

lemma stocks_loop_ok:
  assumes "distinct ids"
    and "\<forall>w \<in> set (filter (\<lambda>w. kod w \<in> set ids) (first_per_code seen feed)). stock_of py_int w = Inr (q w)"
  shows "stocks_loop py_int feed acc (filter (\<lambda>i. i \<notin> set seen) ids)
         = Inr (acc @ map (\<lambda>w. \<lparr>offer_id = kod w, stock = q w\<rparr>)
                        (filter (\<lambda>w. kod w \<in> set ids) (first_per_code seen feed)),
                filter (\<lambda>i. i \<notin> set seen \<and> i \<notin> kod ` set feed) ids)"
  using assms(2)
proof (induction feed arbitrary: acc seen)
  case Nil
  show ?case by simp
next
  case (Cons w ws)
  let ?rows = "\<lambda>seen feed. filter (\<lambda>w. kod w \<in> set ids) (first_per_code seen feed)"
  let ?rest = "\<lambda>seen feed. filter (\<lambda>i. i \<notin> set seen \<and> i \<notin> kod ` set feed) ids"
  let ?mk = "\<lambda>w. \<lparr>offer_id = kod w, stock = q w\<rparr>"
  show ?case
  proof (cases "kod w \<in> set seen")
    case True
    have f: "?rest seen (w # ws) = ?rest seen ws"
      using True by (auto intro: filter_cong)
    have r: "?rows seen (w # ws) = ?rows seen ws"
      using True by simp
    have s: "stocks_loop py_int (w # ws) acc (filter (\<lambda>i. i \<notin> set seen) ids)
             = stocks_loop py_int ws acc (filter (\<lambda>i. i \<notin> set seen) ids)"
      using True by simp
    from Cons.prems have "\<forall>w \<in> set (?rows seen ws). stock_of py_int w = Inr (q w)"
      by (simp only: r)
    from Cons.IH [OF this, of acc] show ?thesis
      by (simp only: f r s)
  next
    case False
    have f: "?rest seen (w # ws) = ?rest (kod w # seen) ws"
      by (auto intro: filter_cong)
    show ?thesis
    proof (cases "kod w \<in> set ids")
      case True
      have r: "?rows seen (w # ws) = w # ?rows (kod w # seen) ws"
        using True False by simp
      from Cons.prems have q: "stock_of py_int w = Inr (q w)"
        and p: "\<forall>w \<in> set (?rows (kod w # seen) ws). stock_of py_int w = Inr (q w)"
        by (simp_all only: r list.set ball_simps insert_iff) auto
      have s: "stocks_loop py_int (w # ws) acc (filter (\<lambda>i. i \<notin> set seen) ids)
               = stocks_loop py_int ws (acc @ [?mk w]) (filter (\<lambda>i. i \<notin> set (kod w # seen)) ids)"
        using True False q by (simp add: remove1_filter_seen [OF assms(1), simplified])
      from Cons.IH [OF p, of "acc @ [?mk w]"] show ?thesis
        by (simp only: f r s) simp
    next
      case nin: False
      have r: "?rows seen (w # ws) = ?rows (kod w # seen) ws"
        using nin False by simp
      from Cons.prems have p: "\<forall>w \<in> set (?rows (kod w # seen) ws). stock_of py_int w = Inr (q w)"
        by (simp only: r)
      have s: "stocks_loop py_int (w # ws) acc (filter (\<lambda>i. i \<notin> set seen) ids)
               = stocks_loop py_int ws acc (filter (\<lambda>i. i \<notin> set (kod w # seen)) ids)"
        using nin False by (simp add: filter_seen_absent [OF nin, simplified])
      from Cons.IH [OF p, of acc] show ?thesis
        by (simp only: f r s)
    qed
  qed
qed

lemma stocks_loop_parses:
  assumes "distinct ids"
  shows "stocks_loop py_int feed acc (filter (\<lambda>i. i \<notin> set seen) ids) = Inr r \<Longrightarrow>
         w \<in> set (filter (\<lambda>w. kod w \<in> set ids) (first_per_code seen feed)) \<Longrightarrow>
         \<exists>n. stock_of py_int w = Inr n"
proof (induction feed arbitrary: acc seen)
  case Nil
  then show ?case by simp
next
  case (Cons v vs)
  let ?rows = "\<lambda>seen feed. filter (\<lambda>w. kod w \<in> set ids) (first_per_code seen feed)"
  show ?case
  proof (cases "kod v \<in> set seen")
    case True
    with Cons.prems Cons.IH [of acc seen] show ?thesis by simp
  next
    case False
    show ?thesis
    proof (cases "kod v \<in> set ids")
      case True
      with False Cons.prems(1) obtain n where n: "stock_of py_int v = Inr n"
        by (cases "stock_of py_int v") auto
      have "stocks_loop py_int (v # vs) acc (filter (\<lambda>i. i \<notin> set seen) ids)
            = stocks_loop py_int vs (acc @ [\<lparr>offer_id = kod v, stock = n\<rparr>])
                (filter (\<lambda>i. i \<notin> set (kod v # seen)) ids)"
        using True False n by (simp add: remove1_filter_seen [OF assms, simplified])
      with Cons.prems(1)
      have l: "stocks_loop py_int vs (acc @ [\<lparr>offer_id = kod v, stock = n\<rparr>])
              (filter (\<lambda>i. i \<notin> set (kod v # seen)) ids) = Inr r"
        by (simp only:)
      have "?rows seen (v # vs) = v # ?rows (kod v # seen) vs"
        using True False by simp
      with Cons.prems(2) have "w = v \<or> w \<in> set (?rows (kod v # seen) vs)"
        by (simp only: list.set insert_iff)
      with Cons.IH [OF l] n show ?thesis by blast
    next
      case nin: False
      have "stocks_loop py_int (v # vs) acc (filter (\<lambda>i. i \<notin> set seen) ids)
            = stocks_loop py_int vs acc (filter (\<lambda>i. i \<notin> set (kod v # seen)) ids)"
        using nin False by (simp add: filter_seen_absent [OF nin, simplified])
      with Cons.prems(1)
      have l: "stocks_loop py_int vs acc (filter (\<lambda>i. i \<notin> set (kod v # seen)) ids) = Inr r"
        by (simp only:)
      have "?rows seen (v # vs) = ?rows (kod v # seen) vs"
        using nin False by simp
      with Cons.prems(2) have "w \<in> set (?rows (kod v # seen) vs)"
        by (simp only:)
      with Cons.IH [OF l] show ?thesis by blast
    qed
  qed
qed

lemma stocks_loop_fails:
  "find (\<lambda>w. kod w = c) feed = Some w0 \<Longrightarrow> c \<in> set offer_ids \<Longrightarrow> stock_of py_int w0 = Inl e \<Longrightarrow>
   stocks_loop py_int feed acc offer_ids = Inl ValueError"
proof (induction feed arbitrary: acc offer_ids)
  case Nil
  then show ?case by simp
next
  case (Cons w ws)
  show ?case
  proof (cases "kod w = c")
    case True
    with Cons.prems have "w = w0" by simp
    with True Cons.prems stock_of_error [of py_int w0 e] show ?thesis by simp
  next
    case False
    with Cons.prems have f: "find (\<lambda>w. kod w = c) ws = Some w0" by simp
    show ?thesis
    proof (cases "kod w \<in> set offer_ids")
      case nin: False
      with Cons.IH [OF f Cons.prems(2,3)] show ?thesis by simp
    next
      case True
      show ?thesis
      proof (cases "stock_of py_int w")
        case (Inl e')
        with True stock_of_error [of py_int w e'] show ?thesis by simp
      next
        case (Inr n)
        from False Cons.prems(2) have "c \<in> set (remove1 (kod w) offer_ids)" by simp
        from Cons.IH [OF f this Cons.prems(3)] True Inr show ?thesis by simp
      qed
    qed
  qed
qed

lemma stocks_loop_rest:
  "stocks_loop py_int feed acc offer_ids = Inr (stocks, rest) \<Longrightarrow>
   rest = fold remove1 (map kod feed) offer_ids"
proof (induction feed arbitrary: acc offer_ids)
  case Nil
  then show ?case by simp
next
  case (Cons w ws)
  show ?case
  proof (cases "kod w \<in> set offer_ids")
    case True
    with Cons.prems obtain n where "stock_of py_int w = Inr n"
      by (cases "stock_of py_int w") auto
    with True Cons.prems Cons.IH show ?thesis by simp
  next
    case False
    with Cons.prems Cons.IH show ?thesis by (simp add: remove1_idem)
  qed
qed

lemma create_stocks_ok:
  assumes "distinct ids"
    and "\<forall>w \<in> set (covering_rows ids feed). stock_of py_int w = Inr (q w)"
  shows "create_stocks py_int feed ids
         = Inr (map (\<lambda>w. \<lparr>offer_id = kod w, stock = q w\<rparr>) (covering_rows ids feed)
                  @ map (\<lambda>i. \<lparr>offer_id = i, stock = 0\<rparr>) (uncovered_ids ids feed),
                uncovered_ids ids feed)"
proof -
  from assms(2)
  have "\<forall>w \<in> set (filter (\<lambda>w. kod w \<in> set ids) (first_per_code [] feed)). stock_of py_int w = Inr (q w)"
    by (simp only: covering_rows_def)
  from stocks_loop_ok [OF assms(1) this, of "[]"]
  have "stocks_loop py_int feed [] ids
        = Inr (map (\<lambda>w. \<lparr>offer_id = kod w, stock = q w\<rparr>) (covering_rows ids feed),
               uncovered_ids ids feed)"
    by (simp add: covering_rows_def uncovered_ids_def)
  then show ?thesis by (simp add: create_stocks_def)
qed

lemma create_stocks_parses:
  assumes "distinct ids" and "create_stocks py_int feed ids = Inr r"
    and "w \<in> set (covering_rows ids feed)"
  shows "\<exists>n. stock_of py_int w = Inr n"
proof -
  from assms(2) obtain r' where "stocks_loop py_int feed [] ids = Inr r'"
    by (cases "stocks_loop py_int feed [] ids") (auto simp: create_stocks_def)
  then have "stocks_loop py_int feed [] (filter (\<lambda>i. i \<notin> set []) ids) = Inr r'"
    by simp
  from stocks_loop_parses [OF assms(1) this, of w] assms(3) show ?thesis
    by (simp only: covering_rows_def)
qed

lemma create_stocks_fails:
  "find (\<lambda>w. kod w = c) feed = Some w0 \<Longrightarrow> c \<in> set ids \<Longrightarrow> stock_of py_int w0 = Inl e \<Longrightarrow>
   create_stocks py_int feed ids = Inl ValueError"
  by (simp add: create_stocks_def stocks_loop_fails)

lemma create_stocks_rest:
  assumes "create_stocks py_int feed ids = Inr (stocks, rest)"
  shows "rest = fold remove1 (map kod feed) ids"
proof -
  from assms obtain st where "stocks_loop py_int feed [] ids = Inr (st, rest)"
    by (cases "stocks_loop py_int feed [] ids") (auto simp: create_stocks_def)
  then show ?thesis by (rule stocks_loop_rest)
qed

lemma first_per_code_find:
  assumes "w \<in> set (first_per_code [] feed)"
  shows "find (\<lambda>v. kod v = kod w) feed = Some w"
proof -
  from assms have "w \<in> set (filter (\<lambda>v. kod v = kod w) (first_per_code [] feed))"
    by simp
  then have "w \<in> set (case find (\<lambda>v. kod v = kod w) feed of None \<Rightarrow> [] | Some u \<Rightarrow> [u])"
    by (simp add: first_per_code_filter_code)
  then show ?thesis
    by (cases "find (\<lambda>v. kod v = kod w) feed") simp_all
qed

lemma stocks_loop_row_fails:
  "i < length feed \<Longrightarrow>
   kod (feed ! i) \<in> set (fold remove1 (map kod (take i feed)) offer_ids) \<Longrightarrow>
   stock_of py_int (feed ! i) = Inl e \<Longrightarrow>
   stocks_loop py_int feed acc offer_ids = Inl ValueError"
proof (induction feed arbitrary: i acc offer_ids)
  case Nil
  then show ?case by simp
next
  case (Cons w ws)
  show ?case
  proof (cases i)
    case 0
    with Cons.prems stock_of_error [of py_int w e] show ?thesis by simp
  next
    case (Suc j)
    with Cons.prems have j: "j < length ws"
      and m: "kod (ws ! j) \<in> set (fold remove1 (map kod (take j ws)) (remove1 (kod w) offer_ids))"
      and s: "stock_of py_int (ws ! j) = Inl e"
      by simp_all
    show ?thesis
    proof (cases "kod w \<in> set offer_ids")
      case False
      then have "remove1 (kod w) offer_ids = offer_ids" by (simp add: remove1_idem)
      with m have "kod (ws ! j) \<in> set (fold remove1 (map kod (take j ws)) offer_ids)"
        by simp
      from Cons.IH [OF j this s] False show ?thesis by simp
    next
      case True
      show ?thesis
      proof (cases "stock_of py_int w")
        case (Inl e')
        with True stock_of_error [of py_int w e'] show ?thesis by simp
      next
        case (Inr n)
        from Cons.IH [OF j m s] True Inr show ?thesis by simp
      qed
    qed
  qed
qed

lemma create_stocks_row_fails:
  "i < length feed \<Longrightarrow>
   kod (feed ! i) \<in> set (fold remove1 (map kod (take i feed)) offer_ids) \<Longrightarrow>
   stock_of py_int (feed ! i) = Inl e \<Longrightarrow>
   create_stocks py_int feed offer_ids = Inl ValueError"
  by (simp add: create_stocks_def stocks_loop_row_fails)

lemma market_stocks_loop_eq:
  "market_stocks_loop py_int wh date feed (map (to_sku wh date) acc) ids
   = map_sum id (map_prod (map (to_sku wh date)) id) (stocks_loop py_int feed acc ids)"
proof (induction feed arbitrary: acc ids)
  case Nil
  show ?case by simp
next
  case (Cons w ws)
  show ?case
  proof (cases "kod w \<in> set ids")
    case False
    with Cons show ?thesis by simp
  next
    case True
    show ?thesis
    proof (cases "stock_of py_int w")
      case (Inl e)
      with True show ?thesis by simp
    next
      case (Inr n)
      have "map (to_sku wh date) acc @ [sku_of wh date (kod w) n]
            = map (to_sku wh date) (acc @ [\<lparr>offer_id = kod w, stock = n\<rparr>])"
        by (simp add: to_sku_def)
      with True Inr Cons [of "acc @ [\<lparr>offer_id = kod w, stock = n\<rparr>]" "remove1 (kod w) ids"]
      show ?thesis by simp
    qed
  qed
qed

lemma market_create_stocks_eq:
  "market_create_stocks py_int feed ids wh date
   = map_sum id (map_prod (map (to_sku wh date)) id) (create_stocks py_int feed ids)"
proof -
  have "market_stocks_loop py_int wh date feed [] ids
        = map_sum id (map_prod (map (to_sku wh date)) id) (stocks_loop py_int feed [] ids)"
    using market_stocks_loop_eq [of py_int wh date feed "[]" ids] by simp
  then show ?thesis
    by (cases "stocks_loop py_int feed [] ids")
       (auto simp: market_create_stocks_def create_stocks_def to_sku_def)
qed

lemma covered_ids_partition:
  assumes "distinct ids"
  shows "distinct (map kod (covering_rows ids feed) @ uncovered_ids ids feed)"
    and "set (map kod (covering_rows ids feed) @ uncovered_ids ids feed) = set ids"
proof -
  have d1: "distinct (map kod (covering_rows ids feed))"
    unfolding covering_rows_def
    by (rule distinct_map_filter) (rule first_per_code_distinct)
  have s1: "set (map kod (covering_rows ids feed)) = kod ` set feed \<inter> set ids"
  proof -
    have "set (map kod (covering_rows ids feed))
          = kod ` set (first_per_code [] feed) \<inter> set ids"
      by (auto simp: covering_rows_def)
    also have "kod ` set (first_per_code [] feed) = kod ` set feed"
      using first_per_code_codes [of "[]" feed] by simp
    finally show ?thesis .
  qed
  have s2: "set (uncovered_ids ids feed) = set ids - kod ` set feed"
    by (auto simp: uncovered_ids_def)
  have d2: "distinct (uncovered_ids ids feed)"
    using assms by (simp add: uncovered_ids_def)
  show "distinct (map kod (covering_rows ids feed) @ uncovered_ids ids feed)"
    using d1 d2 s1 s2 by (simp only: distinct_append) blast
  show "set (map kod (covering_rows ids feed) @ uncovered_ids ids feed) = set ids"
    using s1 s2 by (simp only: set_append) blast
qed

lemma int_of_example_5: "int_of example_int ''5'' = Inr 5"
  by (simp add: int_of_def example_int_def)

lemma int_of_example_7: "int_of example_int ''7'' = Inr 7"
  by (simp add: int_of_def example_int_def)

lemma int_of_example_empty: "int_of example_int [] = Inl ValueError"
  by (simp add: int_of_def example_int_def)

lemma int_of_example_x: "int_of example_int ''x'' = Inl ValueError"
  by (simp add: int_of_def example_int_def)

lemma int_of_example_5990: "int_of example_int ''5990'' = Inr 5990"
  by (simp add: int_of_def example_int_def)

lemma market_create_stocks_Inr:
  "market_create_stocks py_int feed ids wh date = Inr (skus, rest)
   \<longleftrightarrow> (\<exists>stocks. create_stocks py_int feed ids = Inr (stocks, rest) \<and> skus = map (to_sku wh date) stocks)"
  by (cases "create_stocks py_int feed ids") (auto simp: market_create_stocks_eq)

lemma market_create_stocks_Inl:
  "market_create_stocks py_int feed ids wh date = Inl e \<longleftrightarrow> create_stocks py_int feed ids = Inl e"
  by (cases "create_stocks py_int feed ids") (auto simp: market_create_stocks_eq)

lemma create_stocks_distinct_result:
  assumes "distinct ids" and "create_stocks py_int feed ids = Inr (stocks, rest)"
  shows "\<exists>q. (\<forall>w \<in> set (covering_rows ids feed). stock_of py_int w = Inr (q w))
           \<and> stocks = map (\<lambda>w. \<lparr>offer_id = kod w, stock = q w\<rparr>) (covering_rows ids feed)
                        @ map (\<lambda>i. \<lparr>offer_id = i, stock = 0\<rparr>) (uncovered_ids ids feed)
           \<and> rest = uncovered_ids ids feed"
proof -
  have "\<forall>w \<in> set (covering_rows ids feed). \<exists>n. stock_of py_int w = Inr n"
    using create_stocks_parses [OF assms] by blast
  then obtain q where q: "\<forall>w \<in> set (covering_rows ids feed). stock_of py_int w = Inr (q w)"
    by (rule bchoice [THEN exE]) 
  from create_stocks_ok [OF assms(1) q] assms(2) q show ?thesis
    by (intro exI [of _ q]) simp
qed

lemma find_append_Some: "find P xs = Some x \<Longrightarrow> find P (xs @ ys) = Some x"
  by (induction xs) (auto split: if_splits)

lemma find_append_None: "find P xs = None \<Longrightarrow> find P (xs @ ys) = find P ys"
  by (induction xs) (auto split: if_splits)

lemma stocks_loop_prefix:
  "stocks_loop py_int feed acc ids = Inr (stocks, rest) \<Longrightarrow> \<exists>more. stocks = acc @ more"
proof (induction feed arbitrary: acc ids)
  case Nil
  then show ?case by simp
next
  case (Cons w ws)
  show ?case
  proof (cases "kod w \<in> set ids")
    case False
    with Cons show ?thesis by simp
  next
    case True
    with Cons.prems obtain n where n: "stock_of py_int w = Inr n"
      by (cases "stock_of py_int w") auto
    with True Cons.prems
    have "stocks_loop py_int ws (acc @ [\<lparr>offer_id = kod w, stock = n\<rparr>]) (remove1 (kod w) ids)
          = Inr (stocks, rest)" by simp
    from Cons.IH [OF this] show ?thesis by auto
  qed
qed

lemma stocks_loop_first:
  "find (\<lambda>w. kod w = c) feed = Some w0 \<Longrightarrow> c \<in> set ids \<Longrightarrow>
   find (\<lambda>s. offer_id s = c) acc = None \<Longrightarrow>
   stocks_loop py_int feed acc ids = Inr (stocks, rest) \<Longrightarrow>
   \<exists>n. stock_of py_int w0 = Inr n \<and> find (\<lambda>s. offer_id s = c) stocks = Some \<lparr>offer_id = c, stock = n\<rparr>"
proof (induction feed arbitrary: acc ids)
  case Nil
  then show ?case by simp
next
  case (Cons w ws)
  show ?case
  proof (cases "kod w = c")
    case True
    with Cons.prems(1) have w: "w = w0" by simp
    from True Cons.prems(2,4) obtain n where n: "stock_of py_int w = Inr n"
      by (cases "stock_of py_int w") auto
    with True Cons.prems(2,4)
    have "stocks_loop py_int ws (acc @ [\<lparr>offer_id = c, stock = n\<rparr>]) (remove1 c ids)
          = Inr (stocks, rest)" by auto
    from stocks_loop_prefix [OF this] obtain more
      where "stocks = (acc @ [\<lparr>offer_id = c, stock = n\<rparr>]) @ more" by blast
    moreover have "find (\<lambda>s. offer_id s = c) (acc @ [\<lparr>offer_id = c, stock = n\<rparr>])
                   = Some \<lparr>offer_id = c, stock = n\<rparr>"
      using Cons.prems(3) by (simp add: find_append_None)
    ultimately have "find (\<lambda>s. offer_id s = c) stocks = Some \<lparr>offer_id = c, stock = n\<rparr>"
      by (simp only: find_append_Some)
    with n w show ?thesis by blast
  next
    case False
    with Cons.prems(1) have f: "find (\<lambda>w. kod w = c) ws = Some w0" by simp
    show ?thesis
    proof (cases "kod w \<in> set ids")
      case nin: False
      with Cons.prems(4) have "stocks_loop py_int ws acc ids = Inr (stocks, rest)" by simp
      from Cons.IH [OF f Cons.prems(2,3) this] show ?thesis .
    next
      case True
      with Cons.prems(4) obtain n where n: "stock_of py_int w = Inr n"
        by (cases "stock_of py_int w") auto
      with True Cons.prems(4)
      have l: "stocks_loop py_int ws (acc @ [\<lparr>offer_id = kod w, stock = n\<rparr>]) (remove1 (kod w) ids)
            = Inr (stocks, rest)" by simp
      have i: "c \<in> set (remove1 (kod w) ids)"
        using False Cons.prems(2) by simp
      have a: "find (\<lambda>s. offer_id s = c) (acc @ [\<lparr>offer_id = kod w, stock = n\<rparr>]) = None"
        using False Cons.prems(3) by (simp add: find_append_None)
      from Cons.IH [OF f i a l] show ?thesis .
    qed
  qed
qed

lemma create_stocks_first:
  assumes "create_stocks py_int feed ids = Inr (stocks, rest)" and "c \<in> set ids"
    and "find (\<lambda>w. kod w = c) feed = Some w0"
  shows "\<exists>n. stock_of py_int w0 = Inr n
           \<and> find (\<lambda>s. offer_id s = c) stocks = Some \<lparr>offer_id = c, stock = n\<rparr>"
proof -
  from assms(1) obtain st where st: "stocks_loop py_int feed [] ids = Inr (st, rest)"
    and stocks: "stocks = st @ map (\<lambda>i. \<lparr>offer_id = i, stock = 0\<rparr>) rest"
    by (cases "stocks_loop py_int feed [] ids") (auto simp: create_stocks_def)
  have "find (\<lambda>s. offer_id s = c) ([] :: stock_record list) = None" by simp
  from stocks_loop_first [OF assms(3,2) this st] obtain n
    where n: "stock_of py_int w0 = Inr n"
      and f: "find (\<lambda>s. offer_id s = c) st = Some \<lparr>offer_id = c, stock = n\<rparr>" by blast
  from f stocks have "find (\<lambda>s. offer_id s = c) stocks = Some \<lparr>offer_id = c, stock = n\<rparr>"
    by (simp only: find_append_Some)
  with n show ?thesis by blast
qed

lemma create_stocks_only_record:
  assumes "distinct ids" and "create_stocks py_int feed ids = Inr (stocks, rest)" and "c \<in> set ids"
    and "find (\<lambda>w. kod w = c) feed = Some w0" and "stock_of py_int w0 = Inr n"
  shows "filter (\<lambda>s. offer_id s = c) stocks = [\<lparr>offer_id = c, stock = n\<rparr>]"
proof -
  from create_stocks_distinct_result [OF assms(1,2)] obtain q
    where q: "\<forall>w \<in> set (covering_rows ids feed). stock_of py_int w = Inr (q w)"
      and stocks: "stocks = map (\<lambda>w. \<lparr>offer_id = kod w, stock = q w\<rparr>) (covering_rows ids feed)
                        @ map (\<lambda>i. \<lparr>offer_id = i, stock = 0\<rparr>) (uncovered_ids ids feed)"
    by blast
  from assms(4) have w0: "w0 \<in> set feed" "kod w0 = c"
    by (auto simp: find_Some_iff in_set_conv_nth)
  have rows: "filter (\<lambda>w. kod w = c) (covering_rows ids feed) = [w0]"
  proof -
    have "filter (\<lambda>w. kod w = c) (covering_rows ids feed)
          = filter (\<lambda>w. kod w \<in> set ids) (filter (\<lambda>w. kod w = c) (first_per_code [] feed))"
      by (auto simp: covering_rows_def intro: filter_cong)
    also have "filter (\<lambda>w. kod w = c) (first_per_code [] feed) = [w0]"
      using assms(4) by (simp add: first_per_code_filter_code)
    finally show ?thesis using w0 assms(3) by simp
  qed
  have "w0 \<in> set (filter (\<lambda>w. kod w = c) (covering_rows ids feed))"
    by (simp only: rows list.set insertI1)
  then have "w0 \<in> set (covering_rows ids feed)"
    by simp
  with q assms(5) have qn: "q w0 = n" by auto
  have a: "filter (\<lambda>s. offer_id s = c)
             (map (\<lambda>w. \<lparr>offer_id = kod w, stock = q w\<rparr>) (covering_rows ids feed))
           = map (\<lambda>w. \<lparr>offer_id = kod w, stock = q w\<rparr>)
               (filter (\<lambda>w. kod w = c) (covering_rows ids feed))"
    by (simp add: filter_map comp_def)
  have b: "filter (\<lambda>s. offer_id s = c)
             (map (\<lambda>i. \<lparr>offer_id = i, stock = 0\<rparr>) (uncovered_ids ids feed)) = []"
    using w0 by (auto simp: filter_empty_conv uncovered_ids_def)
  show ?thesis
    unfolding stocks filter_append a b rows using w0 qn by simp
qed

lemma prices_loop_eq:
  "prices_loop feed acc ids
   = acc @ map (\<lambda>w. \<lparr>auto_action_enabled = ''UNKNOWN'', currency_code = ''RUB'',
                      price_offer_id = kod w, old_price = ''0'',
                      price = price_conversion (tsena w)\<rparr>)
             (filter (\<lambda>w. kod w \<in> set ids) feed)"
  by (induction feed arbitrary: acc) simp_all

section \<open>The price parser\<close>

text \<open>
  C4. For every raw price string, \<open>price_conversion\<close> returns the part before the
  first full stop with every character that is not a decimal digit removed, a string of
  digits only. The price of 5990 roubles of the examples gives \<open>5990\<close>, the one of
  10990 roubles gives \<open>10990\<close>, and a string with no digit before its first full stop
  gives the empty string.
\<close>

theorem price_conversion_digits_before_dot:
  "price_conversion raw = filter is_digit (takeWhile (\<lambda>c. c \<noteq> CHR ''.'') raw)
   \<and> (\<forall>c \<in> set (price_conversion raw). is_digit c)
   \<and> price_conversion price_5990 = ''5990''
   \<and> price_conversion price_10990 = ''10990''
   \<and> ((\<forall>c \<in> set (takeWhile (\<lambda>c. c \<noteq> CHR ''.'') raw). \<not> is_digit c)
        \<longrightarrow> price_conversion raw = [])"
proof -
  have a: "price_conversion raw = filter is_digit (takeWhile (\<lambda>c. c \<noteq> CHR ''.'') raw)"
    by (rule price_conversion_eq)
  have b: "\<forall>c \<in> set (price_conversion raw). is_digit c"
    by (simp add: price_conversion_eq)
  have c: "price_conversion price_5990 = ''5990''"
    by (simp add: price_conversion_eq price_5990_def rub_def is_digit_def)
  have d: "price_conversion price_10990 = ''10990''"
    by (simp add: price_conversion_eq price_10990_def rub_def is_digit_def)
  have e: "(\<forall>c \<in> set (takeWhile (\<lambda>c. c \<noteq> CHR ''.'') raw). \<not> is_digit c)
           \<longrightarrow> price_conversion raw = []"
    by (simp add: price_conversion_eq filter_empty_conv)
  from a b c d e show ?thesis by blast
qed

theorem price_conversion_digits_before_dot_witness:
  "list_all (\<lambda>c. \<not> is_digit c) (takeWhile (\<lambda>c. c \<noteq> CHR ''.'') ''n/a.50'')
   \<and> price_conversion ''n/a.50'' = []
   \<and> price_conversion ''1 250.75'' = ''1250''
   \<and> list_all is_digit (price_conversion ''1 250.75'')"
proof -
  note na = price_conversion_digits_before_dot [of "''n/a.50''"]
  note pr = price_conversion_digits_before_dot [of "''1 250.75''"]
  have h: "\<forall>c \<in> set (takeWhile (\<lambda>c. c \<noteq> CHR ''.'') ''n/a.50''). \<not> is_digit c"
    by (simp add: is_digit_def)
  have v: "filter is_digit (takeWhile (\<lambda>c. c \<noteq> CHR ''.'') ''1 250.75'') = ''1250''"
    by (simp add: is_digit_def)
  have e0: "list_all (\<lambda>c. \<not> is_digit c) (takeWhile (\<lambda>c. c \<noteq> CHR ''.'') ''n/a.50'')"
    using h by (simp only: list_all_iff)
  have e1: "price_conversion ''n/a.50'' = []"
    using na h by blast
  have e2: "price_conversion ''1 250.75'' = ''1250''"
    using pr [THEN conjunct1] v by (simp only:)
  have "\<forall>c \<in> set (price_conversion ''1 250.75''). is_digit c"
    using pr by blast
  then have e3: "list_all is_digit (price_conversion ''1 250.75'')"
    by (simp only: list_all_iff)
  from e0 e1 e2 e3 show ?thesis by (intro conjI)
qed

section \<open>The batcher\<close>

text \<open>
  C2. For every list and every positive chunk size \<open>n\<close>, \<open>divide\<close> yields finitely
  many chunks whose concatenation is the list itself; the chunk number \<open>k\<close> is the
  slice of length at most \<open>n\<close> that starts at index \<open>k * n\<close>, every chunk but the last
  has length \<open>n\<close>, and the last one has length \<open>length lst mod n\<close>, or \<open>n\<close> when
  \<open>n\<close> divides the length. An empty list gives no chunk.
\<close>

theorem divide_partition:
  assumes "0 < n"
  shows "\<exists>chunks. divide lst n = Inr chunks
           \<and> concat chunks = lst
           \<and> (\<forall>k < length chunks. chunks ! k = take (nat n) (drop (k * nat n) lst))
           \<and> (\<forall>c \<in> set (butlast chunks). length c = nat n)
           \<and> (chunks \<noteq> [] \<longrightarrow>
                length (last chunks)
                  = (if length lst mod nat n = 0 then nat n else length lst mod nat n))
           \<and> (chunks = [] \<longleftrightarrow> lst = [])"
proof -
  let ?m = "nat n"
  have m: "0 < ?m" using assms by simp
  have d: "divide lst n = Inr (divide_from lst ?m 0)"
    using assms by (simp add: divide_def)
  have c1: "concat (divide_from lst ?m 0) = lst"
    using divide_from_concat [OF m, of lst 0] by simp
  have c2: "\<forall>k < length (divide_from lst ?m 0).
              divide_from lst ?m 0 ! k = take ?m (drop (k * ?m) lst)"
    using divide_from_nth [OF m, of _ lst 0] by simp
  have c3: "\<forall>c \<in> set (butlast (divide_from lst ?m 0)). length c = ?m"
    using divide_from_butlast [OF m] by blast
  have c5: "divide_from lst ?m 0 = [] \<longleftrightarrow> lst = []"
    using divide_from_empty_iff [OF m, of lst 0] by simp
  have c4: "divide_from lst ?m 0 \<noteq> [] \<longrightarrow>
              length (last (divide_from lst ?m 0))
                = (if length lst mod ?m = 0 then ?m else length lst mod ?m)"
    using divide_from_last [OF m, of 0 lst] c5 by simp
  from d c1 c2 c3 c4 c5 show ?thesis by blast
qed

theorem divide_partition_witness:
  "(0::int) < 3
   \<and> divide [1, 2, 3, 4, 5 :: nat] 3 = Inr [[1, 2, 3], [4, 5]]
   \<and> divide [1, 2, 3, 4, 5, 6 :: nat] 3 = Inr [[1, 2, 3], [4, 5, 6]]
   \<and> (\<exists>chunks. divide [1, 2, 3, 4, 5 :: nat] 3 = Inr chunks
         \<and> concat chunks = [1, 2, 3, 4, 5]
         \<and> (\<forall>c \<in> set (butlast chunks). length c = 3))"
proof -
  have h: "(0::int) < 3" by simp
  have v5: "divide [1, 2, 3, 4, 5 :: nat] 3 = Inr [[1, 2, 3], [4, 5]]"
    by (simp add: divide_def divide_from_Cons divide_from_Nil)
  have v6: "divide [1, 2, 3, 4, 5, 6 :: nat] 3 = Inr [[1, 2, 3], [4, 5, 6]]"
    by (simp add: divide_def divide_from_Cons divide_from_Nil)
  have n3: "nat 3 = 3" by simp
  have ex: "\<exists>chunks. divide [1, 2, 3, 4, 5 :: nat] 3 = Inr chunks
         \<and> concat chunks = [1, 2, 3, 4, 5]
         \<and> (\<forall>c \<in> set (butlast chunks). length c = 3)"
    using divide_partition [OF h, of "[1, 2, 3, 4, 5 :: nat]"] unfolding n3 by blast
  from h v5 v6 ex show ?thesis by (intro conjI)
qed

section \<open>Facts about the examples and the price loop\<close>

lemma docstring_distinct: "distinct docstring_offer_ids"
  by (simp add: docstring_offer_ids_def)

lemma stock_of_5: "stock_of example_int \<lparr>kod = c, kolichestvo = ''5'', tsena = p\<rparr> = Inr 5"
  by (simp add: stock_of_def int_of_example_5)

lemma stock_of_7: "stock_of example_int \<lparr>kod = c, kolichestvo = ''7'', tsena = p\<rparr> = Inr 7"
  by (simp add: stock_of_def int_of_example_7)

lemma stock_of_empty:
  "stock_of example_int \<lparr>kod = c, kolichestvo = [], tsena = p\<rparr> = Inl ValueError"
  by (simp add: stock_of_def int_of_example_empty)

lemma create_prices_eq:
  "create_prices feed ids = (map price_record_of (filter (\<lambda>w. kod w \<in> set ids) feed), ids)"
proof -
  have "price_record_of = (\<lambda>w. \<lparr>auto_action_enabled = ''UNKNOWN'', currency_code = ''RUB'',
                      price_offer_id = kod w, old_price = ''0'',
                      price = price_conversion (tsena w)\<rparr>)"
    by (rule ext) (simp add: price_record_of_def)
  then show ?thesis
    by (simp add: create_prices_def prices_loop_eq)
qed

lemma market_prices_loop_ok:
  "\<forall>w \<in> set (filter (\<lambda>w. kod w \<in> set ids) feed). py_int (price_conversion (tsena w)) = Some (v w)
   \<Longrightarrow>
   market_prices_loop py_int feed acc ids
   = Inr (acc @ map (\<lambda>w. \<lparr>offer_price_id = kod w,
                             offer_price = \<lparr>money_value = v w, currencyId = ''RUR''\<rparr>\<rparr>)
                  (filter (\<lambda>w. kod w \<in> set ids) feed))"
proof (induction feed arbitrary: acc)
  case Nil
  show ?case by simp
next
  case (Cons w ws)
  show ?case
  proof (cases "kod w \<in> set ids")
    case False
    with Cons show ?thesis by simp
  next
    case True
    with Cons.prems have ok: "py_int (price_conversion (tsena w)) = Some (v w)"
      and rest: "\<forall>w \<in> set (filter (\<lambda>w. kod w \<in> set ids) ws).
                   py_int (price_conversion (tsena w)) = Some (v w)"
      by simp_all
    from Cons.IH [OF rest] True ok show ?thesis
      by (simp add: int_of_def)
  qed
qed

lemma market_prices_loop_fails:
  "w0 \<in> set feed \<Longrightarrow> kod w0 \<in> set ids \<Longrightarrow> py_int (price_conversion (tsena w0)) = None \<Longrightarrow>
   market_prices_loop py_int feed acc ids = Inl ValueError"
proof (induction feed arbitrary: acc)
  case Nil
  then show ?case by simp
next
  case (Cons w ws)
  show ?case
  proof (cases "kod w \<in> set ids \<and> py_int (price_conversion (tsena w)) = None")
    case True
    then show ?thesis by (simp add: int_of_def)
  next
    case False
    with Cons.prems have "w0 \<in> set ws" by auto
    from Cons.IH [OF this Cons.prems(2,3)] show ?thesis
      by (simp add: int_of_def split: option.splits)
  qed
qed

lemma market_prices_loop_codes:
  "market_prices_loop py_int feed acc ids = Inr prices \<Longrightarrow>
   offer_price_id ` set prices \<subseteq> offer_price_id ` set acc \<union> kod ` set feed"
proof (induction feed arbitrary: acc)
  case Nil
  then show ?case by auto
next
  case (Cons w ws)
  show ?case
  proof (cases "kod w \<in> set ids")
    case False
    with Cons.prems have "market_prices_loop py_int ws acc ids = Inr prices" by simp
    from Cons.IH [OF this] show ?thesis by auto
  next
    case True
    with Cons.prems obtain n where
      "market_prices_loop py_int ws
         (acc @ [\<lparr>offer_price_id = kod w,
                  offer_price = \<lparr>money_value = n, currencyId = ''RUR''\<rparr>\<rparr>]) ids = Inr prices"
      by (cases "int_of py_int (price_conversion (tsena w))") auto
    from Cons.IH [OF this] show ?thesis by auto
  qed
qed

lemma price_conversion_5990: "price_conversion price_5990 = ''5990''"
  by (simp add: price_conversion_eq price_5990_def rub_def is_digit_def)

section \<open>The stock reconciler\<close>

text \<open>
  C1, as the code has it. For every feed and every catalog list without repeated ids,
  take the feed rows that are the first of their code and whose code is in the catalog.
  If \<open>int\<close> accepts the quantity of each of them that is neither \<open>>10\<close> nor \<open>1\<close>
  (\<open>n w\<close> is what it returns), then \<open>create_stocks\<close> returns a list with exactly one
  stock record per catalog id: first, in feed order, one record for each such row, with
  100 for \<open>>10\<close>, 0 for \<open>1\<close> and the integer \<open>int\<close> returns otherwise; then, in
  catalog order, a record with quantity 0 for every id no feed row carries. If \<open>int\<close>
  rejects the quantity of one of them, the call raises \<open>ValueError\<close> and returns no
  list. The second marketplace's \<open>create_stocks\<close> returns the same records in its own
  format, and raises on the same inputs.
\<close>

theorem create_stocks_one_record_per_offer_id:
  assumes "distinct offer_ids"
  shows "((\<forall>w \<in> set (covering_rows offer_ids feed).
             kolichestvo w \<noteq> ''>10'' \<and> kolichestvo w \<noteq> ''1''
               \<longrightarrow> py_int (kolichestvo w) = Some (n w)) \<longrightarrow>
          (\<exists>stocks.
             create_stocks py_int feed offer_ids = Inr (stocks, uncovered_ids offer_ids feed)
           \<and> stocks = map (\<lambda>w. \<lparr>offer_id = kod w,
                                  stock = (if kolichestvo w = ''>10'' then 100
                                           else if kolichestvo w = ''1'' then 0
                                           else n w)\<rparr>)
                        (covering_rows offer_ids feed)
                      @ map (\<lambda>i. \<lparr>offer_id = i, stock = 0\<rparr>) (uncovered_ids offer_ids feed)
           \<and> distinct (map offer_id stocks)
           \<and> set (map offer_id stocks) = set offer_ids
           \<and> market_create_stocks py_int feed offer_ids warehouse_id date
               = Inr (map (to_sku warehouse_id date) stocks, uncovered_ids offer_ids feed)))
       \<and> ((\<exists>w \<in> set (covering_rows offer_ids feed).
             kolichestvo w \<noteq> ''>10'' \<and> kolichestvo w \<noteq> ''1''
               \<and> py_int (kolichestvo w) = None) \<longrightarrow>
            create_stocks py_int feed offer_ids = Inl ValueError
          \<and> market_create_stocks py_int feed offer_ids warehouse_id date = Inl ValueError)"
proof -
  let ?q = "\<lambda>w. if kolichestvo w = ''>10'' then 100
                 else if kolichestvo w = ''1'' then 0 else n w"
  let ?stocks = "map (\<lambda>w. \<lparr>offer_id = kod w, stock = ?q w\<rparr>) (covering_rows offer_ids feed)
                   @ map (\<lambda>i. \<lparr>offer_id = i, stock = 0\<rparr>) (uncovered_ids offer_ids feed)"
  have ok: "\<exists>stocks.
             create_stocks py_int feed offer_ids = Inr (stocks, uncovered_ids offer_ids feed)
           \<and> stocks = ?stocks
           \<and> distinct (map offer_id stocks)
           \<and> set (map offer_id stocks) = set offer_ids
           \<and> market_create_stocks py_int feed offer_ids warehouse_id date
               = Inr (map (to_sku warehouse_id date) stocks, uncovered_ids offer_ids feed)"
    if h: "\<forall>w \<in> set (covering_rows offer_ids feed).
             kolichestvo w \<noteq> ''>10'' \<and> kolichestvo w \<noteq> ''1''
               \<longrightarrow> py_int (kolichestvo w) = Some (n w)"
  proof -
    from h have "\<forall>w \<in> set (covering_rows offer_ids feed). stock_of py_int w = Inr (?q w)"
      by (simp add: stock_of_def int_of_def)
    from create_stocks_ok [OF assms this]
    have c: "create_stocks py_int feed offer_ids = Inr (?stocks, uncovered_ids offer_ids feed)" .
    have ids: "map offer_id ?stocks
               = map kod (covering_rows offer_ids feed) @ uncovered_ids offer_ids feed"
      by (simp add: comp_def)
    have d: "distinct (map offer_id ?stocks)"
      unfolding ids by (rule covered_ids_partition(1) [OF assms])
    have s: "set (map offer_id ?stocks) = set offer_ids"
      unfolding ids by (rule covered_ids_partition(2) [OF assms])
    have m: "market_create_stocks py_int feed offer_ids warehouse_id date
             = Inr (map (to_sku warehouse_id date) ?stocks, uncovered_ids offer_ids feed)"
      using c by (simp only: market_create_stocks_Inr) blast
    from c d s m show ?thesis by blast
  qed
  have bad: "create_stocks py_int feed offer_ids = Inl ValueError
          \<and> market_create_stocks py_int feed offer_ids warehouse_id date = Inl ValueError"
    if h: "\<exists>w \<in> set (covering_rows offer_ids feed).
             kolichestvo w \<noteq> ''>10'' \<and> kolichestvo w \<noteq> ''1''
               \<and> py_int (kolichestvo w) = None"
  proof -
    from h obtain w where w: "w \<in> set (covering_rows offer_ids feed)"
      and q: "kolichestvo w \<noteq> ''>10''" "kolichestvo w \<noteq> ''1''" "py_int (kolichestvo w) = None"
      by blast
    from w have first: "w \<in> set (first_per_code [] feed)" and mem: "kod w \<in> set offer_ids"
      by (simp_all add: covering_rows_def)
    from q have e: "stock_of py_int w = Inl ValueError"
      by (simp add: stock_of_def int_of_def)
    from create_stocks_fails [OF first_per_code_find [OF first] mem e]
    have a: "create_stocks py_int feed offer_ids = Inl ValueError" .
    then have "market_create_stocks py_int feed offer_ids warehouse_id date = Inl ValueError"
      by (simp only: market_create_stocks_Inl)
    with a show ?thesis by (intro conjI)
  qed
  from ok bad show ?thesis by blast
qed

text \<open>
  A feed with the three kinds of quantity and a repeated code, and the same catalog with a
  first row whose quantity \<open>int\<close> rejects.
\<close>

theorem create_stocks_one_record_per_offer_id_witness:
  "distinct [''123'', ''789'', ''456'', ''000'']
   \<and> list_all (\<lambda>w. kolichestvo w = ''>10'' \<or> kolichestvo w = ''1''
                    \<or> example_int (kolichestvo w) = Some 5)
        (covering_rows [''123'', ''789'', ''456'', ''000'']
           [\<lparr>kod = ''123'', kolichestvo = ''>10'', tsena = price_5990\<rparr>,
            \<lparr>kod = ''456'', kolichestvo = ''1'', tsena = price_5990\<rparr>,
            \<lparr>kod = ''789'', kolichestvo = ''5'', tsena = price_5990\<rparr>,
            \<lparr>kod = ''123'', kolichestvo = ''7'', tsena = price_5990\<rparr>])
   \<and> create_stocks example_int
        [\<lparr>kod = ''123'', kolichestvo = ''>10'', tsena = price_5990\<rparr>,
         \<lparr>kod = ''456'', kolichestvo = ''1'', tsena = price_5990\<rparr>,
         \<lparr>kod = ''789'', kolichestvo = ''5'', tsena = price_5990\<rparr>,
         \<lparr>kod = ''123'', kolichestvo = ''7'', tsena = price_5990\<rparr>]
        [''123'', ''789'', ''456'', ''000'']
       = Inr ([\<lparr>offer_id = ''123'', stock = 100\<rparr>, \<lparr>offer_id = ''456'', stock = 0\<rparr>,
               \<lparr>offer_id = ''789'', stock = 5\<rparr>, \<lparr>offer_id = ''000'', stock = 0\<rparr>], [''000''])
   \<and> list_ex (\<lambda>w. kolichestvo w \<noteq> ''>10'' \<and> kolichestvo w \<noteq> ''1''
                    \<and> example_int (kolichestvo w) = None)
        (covering_rows [''123'', ''789'', ''456'', ''000'']
           [\<lparr>kod = ''123'', kolichestvo = ''x'', tsena = price_5990\<rparr>])
   \<and> create_stocks example_int [\<lparr>kod = ''123'', kolichestvo = ''x'', tsena = price_5990\<rparr>]
        [''123'', ''789'', ''456'', ''000'']
       = Inl ValueError"
proof -
  let ?ids = "[''123'', ''789'', ''456'', ''000'']"
  let ?r1 = "\<lparr>kod = ''123'', kolichestvo = ''>10'', tsena = price_5990\<rparr>"
  let ?r2 = "\<lparr>kod = ''456'', kolichestvo = ''1'', tsena = price_5990\<rparr>"
  let ?r3 = "\<lparr>kod = ''789'', kolichestvo = ''5'', tsena = price_5990\<rparr>"
  let ?r4 = "\<lparr>kod = ''123'', kolichestvo = ''7'', tsena = price_5990\<rparr>"
  let ?bad = "\<lparr>kod = ''123'', kolichestvo = ''x'', tsena = price_5990\<rparr>"
  have d: "distinct ?ids" by simp
  have rows: "covering_rows ?ids [?r1, ?r2, ?r3, ?r4] = [?r1, ?r2, ?r3]"
    by (simp add: covering_rows_def)
  have unc: "uncovered_ids ?ids [?r1, ?r2, ?r3, ?r4] = [''000'']"
    by (simp add: uncovered_ids_def)
  have rows': "covering_rows ?ids [?bad] = [?bad]"
    by (simp add: covering_rows_def)
  have h: "\<forall>w \<in> set (covering_rows ?ids [?r1, ?r2, ?r3, ?r4]).
             kolichestvo w \<noteq> ''>10'' \<and> kolichestvo w \<noteq> ''1''
               \<longrightarrow> example_int (kolichestvo w) = Some ((\<lambda>w. 5) w)"
    unfolding rows by (simp add: example_int_def)
  have l: "list_all (\<lambda>w. kolichestvo w = ''>10'' \<or> kolichestvo w = ''1''
                    \<or> example_int (kolichestvo w) = Some 5)
             (covering_rows ?ids [?r1, ?r2, ?r3, ?r4])"
    unfolding rows by (simp add: example_int_def)
  have h': "\<exists>w \<in> set (covering_rows ?ids [?bad]).
             kolichestvo w \<noteq> ''>10'' \<and> kolichestvo w \<noteq> ''1''
               \<and> example_int (kolichestvo w) = None"
    unfolding rows' by (simp add: example_int_def)
  have l': "list_ex (\<lambda>w. kolichestvo w \<noteq> ''>10'' \<and> kolichestvo w \<noteq> ''1''
                    \<and> example_int (kolichestvo w) = None) (covering_rows ?ids [?bad])"
    unfolding rows' by (simp add: example_int_def)
  note t = create_stocks_one_record_per_offer_id [OF d, where py_int = example_int
      and warehouse_id = "''warehouse''" and date = "''date''"]
  from t [where feed = "[?r1, ?r2, ?r3, ?r4]" and n = "\<lambda>w. 5", THEN conjunct1, THEN mp, OF h]
  obtain stocks where
    c: "create_stocks example_int [?r1, ?r2, ?r3, ?r4] ?ids
          = Inr (stocks, uncovered_ids ?ids [?r1, ?r2, ?r3, ?r4])"
    and s: "stocks = map (\<lambda>w. \<lparr>offer_id = kod w,
                                  stock = (if kolichestvo w = ''>10'' then 100
                                           else if kolichestvo w = ''1'' then 0
                                           else 5)\<rparr>)
                        (covering_rows ?ids [?r1, ?r2, ?r3, ?r4])
                      @ map (\<lambda>i. \<lparr>offer_id = i, stock = 0\<rparr>)
                          (uncovered_ids ?ids [?r1, ?r2, ?r3, ?r4])"
    by blast
  have s': "stocks = [\<lparr>offer_id = ''123'', stock = 100\<rparr>, \<lparr>offer_id = ''456'', stock = 0\<rparr>,
               \<lparr>offer_id = ''789'', stock = 5\<rparr>, \<lparr>offer_id = ''000'', stock = 0\<rparr>]"
    unfolding s rows unc by simp
  from c have a: "create_stocks example_int [?r1, ?r2, ?r3, ?r4] ?ids
       = Inr ([\<lparr>offer_id = ''123'', stock = 100\<rparr>, \<lparr>offer_id = ''456'', stock = 0\<rparr>,
               \<lparr>offer_id = ''789'', stock = 5\<rparr>, \<lparr>offer_id = ''000'', stock = 0\<rparr>], [''000''])"
    unfolding s' unc .
  from t [where feed = "[?bad]" and n = "\<lambda>w. 5", THEN conjunct2, THEN mp, OF h']
  have b: "create_stocks example_int [?bad] ?ids = Inl ValueError"
    by (rule conjunct1)
  from d l a l' b show ?thesis by (intro conjI)
qed

text \<open>
  The claim as written fails on a feed whose matched row has an empty quantity cell
  (\<open>int("")\<close> raises, and no list is returned) and on a catalog that repeats an id
  (the id gets two records, and the later feed row of the same code is not ignored).
\<close>

theorem create_stocks_every_list_counterexample:
  "create_stocks example_int [\<lparr>kod = ''123'', kolichestvo = [], tsena = price_5990\<rparr>]
     [''123'', ''789'']
     = Inl ValueError
   \<and> create_stocks example_int
       [\<lparr>kod = ''123'', kolichestvo = ''5'', tsena = price_5990\<rparr>,
        \<lparr>kod = ''123'', kolichestvo = ''7'', tsena = price_5990\<rparr>] [''123'', ''123'']
     = Inr ([\<lparr>offer_id = ''123'', stock = 5\<rparr>, \<lparr>offer_id = ''123'', stock = 7\<rparr>], [])"
  by (simp add: create_stocks_def stock_of_empty stock_of_5 stock_of_7)

text \<open>
  C5, as the code has it. When \<open>create_stocks\<close> returns and a catalog id is the code of
  some feed row, the first stock record with that id carries the quantity of the first
  feed row with that code (\<open>find\<close> returns the first match): the first row wins, and
  later rows of the same code are not read. With a catalog without repeated ids that
  record is the only one with the id. The second marketplace's records are the same ones
  in its format.
\<close>

theorem create_stocks_first_row_wins:
  assumes "create_stocks py_int feed offer_ids = Inr (stocks, rest)"
    and "c \<in> set offer_ids"
    and "find (\<lambda>w. kod w = c) feed = Some w0"
  shows "\<exists>n. stock_of py_int w0 = Inr n
           \<and> find (\<lambda>s. offer_id s = c) stocks = Some \<lparr>offer_id = c, stock = n\<rparr>
           \<and> (distinct offer_ids \<longrightarrow>
                filter (\<lambda>s. offer_id s = c) stocks = [\<lparr>offer_id = c, stock = n\<rparr>])
           \<and> market_create_stocks py_int feed offer_ids warehouse_id date
               = Inr (map (to_sku warehouse_id date) stocks, rest)"
proof -
  from create_stocks_first [OF assms] obtain n
    where n: "stock_of py_int w0 = Inr n"
      and f: "find (\<lambda>s. offer_id s = c) stocks = Some \<lparr>offer_id = c, stock = n\<rparr>"
    by blast
  have d: "distinct offer_ids \<longrightarrow>
             filter (\<lambda>s. offer_id s = c) stocks = [\<lparr>offer_id = c, stock = n\<rparr>]"
    using create_stocks_only_record [OF _ assms n] by blast
  have m: "market_create_stocks py_int feed offer_ids warehouse_id date
             = Inr (map (to_sku warehouse_id date) stocks, rest)"
    using assms(1) by (simp only: market_create_stocks_Inr) blast
  from n f d m show ?thesis by blast
qed

theorem create_stocks_first_row_wins_witness:
  "create_stocks example_int [\<lparr>kod = ''123'', kolichestvo = ''5'', tsena = price_5990\<rparr>,
                  \<lparr>kod = ''123'', kolichestvo = ''7'', tsena = price_10990\<rparr>] [''123'', ''789'']
     = Inr ([\<lparr>offer_id = ''123'', stock = 5\<rparr>, \<lparr>offer_id = ''789'', stock = 0\<rparr>], [''789''])
   \<and> ''123'' \<in> set [''123'', ''789'']
   \<and> find (\<lambda>w. kod w = ''123'')
        [\<lparr>kod = ''123'', kolichestvo = ''5'', tsena = price_5990\<rparr>,
         \<lparr>kod = ''123'', kolichestvo = ''7'', tsena = price_10990\<rparr>]
       = Some \<lparr>kod = ''123'', kolichestvo = ''5'', tsena = price_5990\<rparr>
   \<and> distinct [''123'', ''789'']
   \<and> (\<exists>n. stock_of example_int \<lparr>kod = ''123'', kolichestvo = ''5'', tsena = price_5990\<rparr> = Inr n
         \<and> filter (\<lambda>s. offer_id s = ''123'')
              [\<lparr>offer_id = ''123'', stock = 5\<rparr>, \<lparr>offer_id = ''789'', stock = 0\<rparr>]
            = [\<lparr>offer_id = ''123'', stock = n\<rparr>])"
proof -
  let ?feed = "[\<lparr>kod = ''123'', kolichestvo = ''5'', tsena = price_5990\<rparr>,
                \<lparr>kod = ''123'', kolichestvo = ''7'', tsena = price_10990\<rparr>]"
  have a: "create_stocks example_int ?feed [''123'', ''789'']
     = Inr ([\<lparr>offer_id = ''123'', stock = 5\<rparr>, \<lparr>offer_id = ''789'', stock = 0\<rparr>], [''789''])"
    by (simp add: create_stocks_def stock_of_5)
  have b: "''123'' \<in> set [''123'', ''789'']" by simp
  have c: "find (\<lambda>w. kod w = ''123'') ?feed
           = Some \<lparr>kod = ''123'', kolichestvo = ''5'', tsena = price_5990\<rparr>" by simp
  have d: "distinct [''123'', ''789'']" by simp
  from create_stocks_first_row_wins [OF a b c] d
  have e: "\<exists>n. stock_of example_int \<lparr>kod = ''123'', kolichestvo = ''5'', tsena = price_5990\<rparr> = Inr n
         \<and> filter (\<lambda>s. offer_id s = ''123'')
              [\<lparr>offer_id = ''123'', stock = 5\<rparr>, \<lparr>offer_id = ''789'', stock = 0\<rparr>]
            = [\<lparr>offer_id = ''123'', stock = n\<rparr>]"
    by blast
  from a b c d e show ?thesis by (intro conjI)
qed

text \<open>
  With two feed rows of code 123, quantities 5 then 7, the record for 123 carries 5: the
  last row does not win.
\<close>

theorem create_stocks_last_row_counterexample:
  "create_stocks example_int [\<lparr>kod = ''123'', kolichestvo = ''5'', tsena = price_5990\<rparr>,
                  \<lparr>kod = ''123'', kolichestvo = ''7'', tsena = price_10990\<rparr>] [''123'']
     = Inr ([\<lparr>offer_id = ''123'', stock = 5\<rparr>], [])
   \<and> stock_of example_int \<lparr>kod = ''123'', kolichestvo = ''7'', tsena = price_10990\<rparr> = Inr 7"
  by (simp add: create_stocks_def stock_of_5 stock_of_7)

text \<open>
  C7, as the code has it. After \<open>create_stocks\<close> returns, the caller's list is the
  catalog with one occurrence of the code removed for every feed row that found its code
  there (\<open>list.remove\<close> takes the first occurrence away); for a catalog without repeated
  ids this is exactly the ids that no feed row carries, in catalog order. In both files
  \<open>create_prices\<close> leaves the caller's list as it was.
\<close>

theorem create_stocks_consumes_offer_ids:
  "(create_stocks py_int feed offer_ids = Inr (stocks, rest) \<longrightarrow>
      rest = fold remove1 (map kod feed) offer_ids
      \<and> (distinct offer_ids \<longrightarrow> rest = uncovered_ids offer_ids feed))
   \<and> (market_create_stocks py_int feed offer_ids warehouse_id date = Inr (skus, rest') \<longrightarrow>
      rest' = fold remove1 (map kod feed) offer_ids
      \<and> (distinct offer_ids \<longrightarrow> rest' = uncovered_ids offer_ids feed))
   \<and> snd (create_prices feed offer_ids) = offer_ids
   \<and> (market_create_prices py_int feed offer_ids = Inr (prices, ids) \<longrightarrow> ids = offer_ids)"
proof -
  have a: "rest = fold remove1 (map kod feed) offer_ids
           \<and> (distinct offer_ids \<longrightarrow> rest = uncovered_ids offer_ids feed)"
    if "create_stocks py_int feed offer_ids = Inr (stocks, rest)" for stocks rest
    using create_stocks_rest [OF that] create_stocks_distinct_result [OF _ that] by blast
  have b: "rest' = fold remove1 (map kod feed) offer_ids
           \<and> (distinct offer_ids \<longrightarrow> rest' = uncovered_ids offer_ids feed)"
    if "market_create_stocks py_int feed offer_ids warehouse_id date = Inr (skus, rest')"
    using that a unfolding market_create_stocks_Inr by blast
  have c: "snd (create_prices feed offer_ids) = offer_ids"
    by (simp add: create_prices_def)
  have d: "market_create_prices py_int feed offer_ids = Inr (prices, ids) \<longrightarrow> ids = offer_ids"
    by (auto simp: market_create_prices_def split: sum.splits)
  from a b c d show ?thesis by blast
qed

theorem create_stocks_consumes_offer_ids_witness:
  "create_stocks example_int docstring_remnants docstring_offer_ids
     = Inr ([\<lparr>offer_id = ''123'', stock = 5\<rparr>, \<lparr>offer_id = ''789'', stock = 0\<rparr>], [''789''])
   \<and> distinct docstring_offer_ids
   \<and> [''789''] = uncovered_ids docstring_offer_ids docstring_remnants
   \<and> [''789''] = fold remove1 (map kod docstring_remnants) docstring_offer_ids
   \<and> snd (create_prices docstring_remnants docstring_offer_ids) = docstring_offer_ids"
proof -
  have a: "create_stocks example_int docstring_remnants docstring_offer_ids
     = Inr ([\<lparr>offer_id = ''123'', stock = 5\<rparr>, \<lparr>offer_id = ''789'', stock = 0\<rparr>], [''789''])"
    by (simp add: create_stocks_def docstring_remnants_def docstring_offer_ids_def
        stock_of_5)
  note t = create_stocks_consumes_offer_ids [of example_int docstring_remnants docstring_offer_ids
      "[\<lparr>offer_id = ''123'', stock = 5\<rparr>, \<lparr>offer_id = ''789'', stock = 0\<rparr>]" "[''789'']"]
  from t a docstring_distinct
  have b: "[''789''] = uncovered_ids docstring_offer_ids docstring_remnants" by blast
  from t a have c: "[''789''] = fold remove1 (map kod docstring_remnants) docstring_offer_ids"
    by blast
  from t have d: "snd (create_prices docstring_remnants docstring_offer_ids) = docstring_offer_ids"
    by blast
  from a docstring_distinct b c d show ?thesis by (intro conjI)
qed

text \<open>
  With the id 123 twice in the catalog and one feed row of code 123, the caller's list
  still holds 123 after the call, although a feed row matched it.
\<close>

theorem create_stocks_matched_id_remains_counterexample:
  "create_stocks example_int [\<lparr>kod = ''123'', kolichestvo = ''5'', tsena = price_5990\<rparr>] [''123'', ''123'']
     = Inr ([\<lparr>offer_id = ''123'', stock = 5\<rparr>, \<lparr>offer_id = ''123'', stock = 0\<rparr>], [''123''])"
  by (simp add: create_stocks_def stock_of_5)

section \<open>The price reconciler\<close>

text \<open>
  C3, as the code has it. seller.py: for every feed and catalog, \<open>create_prices\<close>
  returns, in feed order, exactly one price record for each feed row whose code is in
  the catalog, and no record for a catalog id that no feed row carries. market.py hands
  the parsed price to \<open>int\<close>: when \<open>int\<close> accepts the parsed price of every such row
  (\<open>v w\<close> is what it returns) the same holds, with that integer as the price; when it
  rejects one, as it does the empty string that a price with no digit before its first
  full stop is parsed to, the call raises \<open>ValueError\<close> and no record is returned. For
  the catalog 123, 789 and the one feed row of code 123 priced 5990 roubles the result is
  the one record for 123, with price \<open>5990\<close> (in market.py, as \<open>int("5990")\<close> is
  5990).
\<close>

theorem create_prices_covered_rows_only:
  "create_prices feed offer_ids
     = (map price_record_of (filter (\<lambda>w. kod w \<in> set offer_ids) feed), offer_ids)
   \<and> ((\<forall>w \<in> set feed. kod w \<in> set offer_ids
          \<longrightarrow> py_int (price_conversion (tsena w)) = Some (v w)) \<longrightarrow>
        market_create_prices py_int feed offer_ids
          = Inr (map (\<lambda>w. \<lparr>offer_price_id = kod w,
                             offer_price = \<lparr>money_value = v w, currencyId = ''RUR''\<rparr>\<rparr>)
                   (filter (\<lambda>w. kod w \<in> set offer_ids) feed), offer_ids))
   \<and> ((\<exists>w \<in> set feed. kod w \<in> set offer_ids
          \<and> py_int (price_conversion (tsena w)) = None) \<longrightarrow>
        market_create_prices py_int feed offer_ids = Inl ValueError)
   \<and> (\<forall>i \<in> set offer_ids. i \<notin> kod ` set feed \<longrightarrow>
        i \<notin> price_offer_id ` set (fst (create_prices feed offer_ids)))
   \<and> (\<forall>prices ids. market_create_prices py_int feed offer_ids = Inr (prices, ids) \<longrightarrow>
        (\<forall>i \<in> set offer_ids. i \<notin> kod ` set feed \<longrightarrow> i \<notin> offer_price_id ` set prices))
   \<and> create_prices [\<lparr>kod = ''123'', kolichestvo = k, tsena = price_5990\<rparr>] [''123'', ''789'']
       = ([\<lparr>auto_action_enabled = ''UNKNOWN'', currency_code = ''RUB'',
            price_offer_id = ''123'', old_price = ''0'', price = ''5990''\<rparr>], [''123'', ''789''])
   \<and> (py_int ''5990'' = Some 5990 \<longrightarrow>
        market_create_prices py_int [\<lparr>kod = ''123'', kolichestvo = k, tsena = price_5990\<rparr>]
          [''123'', ''789'']
          = Inr ([\<lparr>offer_price_id = ''123'',
                    offer_price = \<lparr>money_value = 5990, currencyId = ''RUR''\<rparr>\<rparr>],
                 [''123'', ''789'']))"
proof -
  let ?mk = "\<lambda>v w. \<lparr>offer_price_id = kod w,
                      offer_price = \<lparr>money_value = v w, currencyId = ''RUR''\<rparr>\<rparr>"
  have a: "create_prices feed offer_ids
     = (map price_record_of (filter (\<lambda>w. kod w \<in> set offer_ids) feed), offer_ids)"
    by (rule create_prices_eq)
  have ok: "market_create_prices py_int rows ids
              = Inr (map (?mk u) (filter (\<lambda>w. kod w \<in> set ids) rows), ids)"
    if "\<forall>w \<in> set rows. kod w \<in> set ids \<longrightarrow> py_int (price_conversion (tsena w)) = Some (u w)"
    for rows ids u
  proof -
    from that have "\<forall>w \<in> set (filter (\<lambda>w. kod w \<in> set ids) rows).
                      py_int (price_conversion (tsena w)) = Some (u w)" by simp
    from market_prices_loop_ok [OF this, of "[]"] show ?thesis
      by (simp add: market_create_prices_def)
  qed
  have b: "(\<forall>w \<in> set feed. kod w \<in> set offer_ids
          \<longrightarrow> py_int (price_conversion (tsena w)) = Some (v w)) \<longrightarrow>
        market_create_prices py_int feed offer_ids
          = Inr (map (?mk v) (filter (\<lambda>w. kod w \<in> set offer_ids) feed), offer_ids)"
    using ok [of feed offer_ids v] by blast
  have c: "(\<exists>w \<in> set feed. kod w \<in> set offer_ids
          \<and> py_int (price_conversion (tsena w)) = None) \<longrightarrow>
        market_create_prices py_int feed offer_ids = Inl ValueError"
    by (auto simp: market_create_prices_def market_prices_loop_fails)
  have d: "\<forall>i \<in> set offer_ids. i \<notin> kod ` set feed \<longrightarrow>
        i \<notin> price_offer_id ` set (fst (create_prices feed offer_ids))"
    by (auto simp: create_prices_eq price_record_of_def)
  have e: "\<forall>prices ids. market_create_prices py_int feed offer_ids = Inr (prices, ids) \<longrightarrow>
        (\<forall>i \<in> set offer_ids. i \<notin> kod ` set feed \<longrightarrow> i \<notin> offer_price_id ` set prices)"
  proof (intro allI impI ballI)
    fix prices ids i
    assume r: "market_create_prices py_int feed offer_ids = Inr (prices, ids)"
      and i: "i \<notin> kod ` set feed"
    from r have "offer_price_id ` set prices \<subseteq> kod ` set feed"
      by (auto simp: market_create_prices_def split: sum.splits
               dest!: market_prices_loop_codes)
    with i show "i \<notin> offer_price_id ` set prices" by blast
  qed
  have f: "create_prices [\<lparr>kod = ''123'', kolichestvo = k, tsena = price_5990\<rparr>] [''123'', ''789'']
       = ([\<lparr>auto_action_enabled = ''UNKNOWN'', currency_code = ''RUB'',
            price_offer_id = ''123'', old_price = ''0'', price = ''5990''\<rparr>], [''123'', ''789''])"
    by (simp add: create_prices_eq price_record_of_def price_conversion_5990)
  have g: "py_int ''5990'' = Some 5990 \<longrightarrow>
        market_create_prices py_int [\<lparr>kod = ''123'', kolichestvo = k, tsena = price_5990\<rparr>]
          [''123'', ''789'']
          = Inr ([\<lparr>offer_price_id = ''123'',
                    offer_price = \<lparr>money_value = 5990, currencyId = ''RUR''\<rparr>\<rparr>],
                 [''123'', ''789''])"
    by (simp add: market_create_prices_def price_conversion_5990 int_of_def)
  from a b c d e f g show ?thesis by (intro conjI)
qed

theorem create_prices_covered_rows_only_witness:
  "list_all (\<lambda>w. kod w \<notin> set [''123'', ''789'']
                    \<or> example_int (price_conversion (tsena w)) = Some 5990)
     [\<lparr>kod = ''123'', kolichestvo = ''5'', tsena = price_5990\<rparr>]
   \<and> example_int ''5990'' = Some 5990
   \<and> create_prices [\<lparr>kod = ''123'', kolichestvo = ''5'', tsena = price_5990\<rparr>] [''123'', ''789'']
       = ([\<lparr>auto_action_enabled = ''UNKNOWN'', currency_code = ''RUB'',
            price_offer_id = ''123'', old_price = ''0'', price = ''5990''\<rparr>], [''123'', ''789''])
   \<and> market_create_prices example_int
        [\<lparr>kod = ''123'', kolichestvo = ''5'', tsena = price_5990\<rparr>] [''123'', ''789'']
       = Inr ([\<lparr>offer_price_id = ''123'',
                 offer_price = \<lparr>money_value = 5990, currencyId = ''RUR''\<rparr>\<rparr>], [''123'', ''789''])
   \<and> ''789'' \<in> set [''123'', ''789'']
   \<and> ''789'' \<notin> kod ` set [\<lparr>kod = ''123'', kolichestvo = ''5'', tsena = price_5990\<rparr>]
   \<and> ''789'' \<notin> price_offer_id ` set (fst (create_prices
        [\<lparr>kod = ''123'', kolichestvo = ''5'', tsena = price_5990\<rparr>] [''123'', ''789'']))
   \<and> list_ex (\<lambda>w. kod w \<in> set [''123'', ''789'']
                    \<and> example_int (price_conversion (tsena w)) = None)
        [\<lparr>kod = ''123'', kolichestvo = ''5'', tsena = ''n/a''\<rparr>]
   \<and> market_create_prices example_int
        [\<lparr>kod = ''123'', kolichestvo = ''5'', tsena = ''n/a''\<rparr>] [''123'', ''789'']
       = Inl ValueError"
proof -
  let ?w = "\<lparr>kod = ''123'', kolichestvo = ''5'', tsena = price_5990\<rparr>"
  let ?bad = "\<lparr>kod = ''123'', kolichestvo = ''5'', tsena = ''n/a''\<rparr>"
  let ?ids = "[''123'', ''789'']"
  note t = create_prices_covered_rows_only [where feed = "[?w]" and offer_ids = ?ids
      and py_int = example_int and v = "\<lambda>w. 5990" and k = "''5''"]
  note u = create_prices_covered_rows_only [where feed = "[?bad]" and offer_ids = ?ids
      and py_int = example_int and v = "\<lambda>w. 5990" and k = "''5''"]
  have i: "example_int ''5990'' = Some 5990"
    by (simp add: example_int_def)
  have h: "\<forall>w \<in> set [?w]. kod w \<in> set ?ids
             \<longrightarrow> example_int (price_conversion (tsena w)) = Some ((\<lambda>w. 5990) w)"
    by (simp add: price_conversion_5990 i)
  then have h': "list_all (\<lambda>w. kod w \<notin> set ?ids
                    \<or> example_int (price_conversion (tsena w)) = Some 5990) [?w]"
    by (auto simp: list_all_iff)
  have na: "price_conversion ''n/a'' = []"
    by (simp add: price_conversion_eq is_digit_def)
  have n: "\<exists>w \<in> set [?bad]. kod w \<in> set ?ids
             \<and> example_int (price_conversion (tsena w)) = None"
    by (simp add: na example_int_def)
  then have n': "list_ex (\<lambda>w. kod w \<in> set ?ids
                    \<and> example_int (price_conversion (tsena w)) = None) [?bad]"
    by (simp only: list_ex_iff)
  from t have a: "create_prices [?w] ?ids
       = ([\<lparr>auto_action_enabled = ''UNKNOWN'', currency_code = ''RUB'',
            price_offer_id = ''123'', old_price = ''0'', price = ''5990''\<rparr>], ?ids)"
    by blast
  from t i have b: "market_create_prices example_int [?w] ?ids
       = Inr ([\<lparr>offer_price_id = ''123'',
                 offer_price = \<lparr>money_value = 5990, currencyId = ''RUR''\<rparr>\<rparr>], ?ids)"
    by blast
  from t h have b': "market_create_prices example_int [?w] ?ids
       = Inr (map (\<lambda>w. \<lparr>offer_price_id = kod w,
                          offer_price = \<lparr>money_value = 5990, currencyId = ''RUR''\<rparr>\<rparr>)
                (filter (\<lambda>w. kod w \<in> set ?ids) [?w]), ?ids)"
    by blast
  have c: "''789'' \<in> set ?ids" by simp
  have d: "''789'' \<notin> kod ` set [?w]" by simp
  from t c d have e: "''789'' \<notin> price_offer_id ` set (fst (create_prices [?w] ?ids))"
    by blast
  from u n have f: "market_create_prices example_int [?bad] ?ids = Inl ValueError"
    by blast
  from h' i a b c d e n' f show ?thesis by (intro conjI)
qed

text \<open>
  market.py on a covered feed row with an empty price cell: the call raises
  \<open>ValueError\<close> and emits no record.
\<close>

theorem market_create_prices_counterexample:
  "market_create_prices example_int [\<lparr>kod = ''123'', kolichestvo = ''5'', tsena = []\<rparr>]
     [''123'', ''789'']
     = Inl ValueError
   \<and> price_conversion [] = []"
  by (simp add: market_create_prices_def int_of_example_empty price_conversion_eq)

section \<open>Facts about the uploads\<close>

lemma divide_from_lengths: "c \<in> set (divide_from lst n i) \<Longrightarrow> length c \<le> n"
proof (induction lst n i rule: divide_from.induct)
  case (1 lst n i)
  show ?case
  proof (cases "0 < n \<and> i < length lst")
    case False
    with 1 show ?thesis by (simp add: divide_from_Nil)
  next
    case True
    then have "divide_from lst n i = take n (drop i lst) # divide_from lst n (i + n)"
      by (simp add: divide_from_Cons)
    with "1.prems" have "c = take n (drop i lst) \<or> c \<in> set (divide_from lst n (i + n))"
      by simp
    then show ?thesis
    proof
      assume "c = take n (drop i lst)"
      then show ?thesis by simp
    next
      assume "c \<in> set (divide_from lst n (i + n))"
      with 1 True show ?thesis by simp
    qed
  qed
qed

lemma divide_lengths:
  "divide lst n = Inr chunks \<Longrightarrow> c \<in> set chunks \<Longrightarrow> int (length c) \<le> n"
  by (auto simp: divide_def split: if_splits dest: divide_from_lengths)

lemma send_each_all:
  "send_each rem sent rqs = (sent', r) \<Longrightarrow> \<forall>rq \<in> set sent. P rq \<Longrightarrow>
   \<forall>rq \<in> set rqs. P rq \<Longrightarrow> rq \<in> set sent' \<Longrightarrow> P rq"
proof (induction rqs arbitrary: sent)
  case Nil
  then show ?case by simp
next
  case (Cons x xs)
  show ?case
  proof (cases "rem sent x")
    case (Some e)
    with Cons.prems show ?thesis by auto
  next
    case None
    with Cons.prems(1) have "send_each rem (sent @ [x]) xs = (sent', r)" by simp
    from Cons.IH [OF this _ _ Cons.prems(4)] Cons.prems(2,3) show ?thesis by simp
  qed
qed

lemma send_each_stage:
  assumes "send_each rem sent (map mk batches) = (sent', r)"
    and "\<forall>rq \<in> set sent. P rq" and "\<forall>b \<in> set batches. P (mk b)"
  shows "\<forall>rq \<in> set sent'. P rq"
proof
  fix rq
  assume m: "rq \<in> set sent'"
  from assms(3) have "\<forall>rq \<in> set (map mk batches). P rq" by simp
  from send_each_all [OF assms(1,2) this m] show "P rq" .
qed

lemma chunk_size_positive: "0 < chunk_size step"
  by (cases step) simp_all

lemma upload_stage:
  assumes "0 < n" and "\<And>b. int (length b) \<le> n \<Longrightarrow> P (mk b)" and "\<forall>rq \<in> set sent. P rq"
  shows "\<exists>batches sent' r. divide xs n = Inr batches
           \<and> send_each rem sent (map mk batches) = (sent', r)
           \<and> (\<forall>rq \<in> set sent'. P rq)"
proof -
  from assms(1) obtain batches where d: "divide xs n = Inr batches"
    by (simp add: divide_def)
  obtain sent' r where se: "send_each rem sent (map mk batches) = (sent', r)"
    by (cases "send_each rem sent (map mk batches)")
  have "\<forall>b \<in> set batches. P (mk b)"
    using divide_lengths [OF d] assms(2) by blast
  from send_each_stage [OF se assms(3) this] d se show ?thesis by blast
qed

lemma seller_main_try_all:
  assumes st: "\<And>b. int (length b) \<le> chunk_size Seller_main_stocks \<Longrightarrow> P (Ozon_stocks b)"
    and pr: "\<And>b. int (length b) \<le> chunk_size Seller_main_prices \<Longrightarrow> P (Ozon_prices b)"
  shows "\<forall>rq \<in> set (fst (seller_main_try world client_id)). P rq"
proof (cases "get_offer_ids world client_id")
  case (Inl e)
  then show ?thesis by (simp add: seller_main_try_def)
next
  case ids: (Inr offer_ids)
  show ?thesis
  proof (cases "download_stock world")
    case (Inl e)
    with ids show ?thesis by (simp add: seller_main_try_def)
  next
    case feed: (Inr watch_remnants)
    show ?thesis
    proof (cases "create_stocks (builtin_int world) watch_remnants offer_ids")
      case (Inl e)
      with ids feed show ?thesis by (simp add: seller_main_try_def)
    next
      case (Inr res)
      obtain stocks rest where res: "res = (stocks, rest)" by (cases res)
      from upload_stage [where n = "chunk_size Seller_main_stocks" and mk = Ozon_stocks and P = P
          and sent = "[]" and xs = stocks and rem = "remote world", OF chunk_size_positive st]
      obtain sb sent r where sb: "divide stocks (chunk_size Seller_main_stocks) = Inr sb"
        and se: "send_each (remote world) [] (map Ozon_stocks sb) = (sent, r)"
        and sent: "\<forall>rq \<in> set sent. P rq" by auto
      show ?thesis
      proof (cases r)
        case (Inl e)
        with ids feed Inr res sb se sent show ?thesis by (simp add: seller_main_try_def)
      next
        case ok: (Inr u)
        obtain prices rest' where cp: "create_prices watch_remnants rest = (prices, rest')"
          by (cases "create_prices watch_remnants rest")
        from upload_stage [where n = "chunk_size Seller_main_prices" and mk = Ozon_prices and P = P
            and xs = prices and rem = "remote world", OF chunk_size_positive pr sent]
        obtain pb sent' r' where pb: "divide prices (chunk_size Seller_main_prices) = Inr pb"
          and se': "send_each (remote world) sent (map Ozon_prices pb) = (sent', r')"
          and "\<forall>rq \<in> set sent'. P rq" by auto
        with ids feed Inr res sb se ok cp show ?thesis
          by (simp add: seller_main_try_def)
      qed
    qed
  qed
qed

lemma seller_main_fst: "fst (seller_main world client_id) = fst (seller_main_try world client_id)"
  by (simp add: seller_main_def split: prod.splits sum.splits)

lemma seller_main_create_stocks_fails:
  "get_offer_ids world client_id = Inr offer_ids \<Longrightarrow> download_stock world = Inr feed \<Longrightarrow>
   create_stocks (builtin_int world) feed offer_ids = Inl e \<Longrightarrow>
   seller_main world client_id = ([], handler e)"
  by (simp add: seller_main_def seller_main_try_def)

lemma upload_prices_all:
  assumes pr: "\<And>b. int (length b) \<le> chunk_size Seller_upload_prices \<Longrightarrow> P (Ozon_prices b)"
    and sent: "\<forall>rq \<in> set sent. P rq"
  shows "\<forall>rq \<in> set (fst (upload_prices world client_id feed sent)). P rq"
proof (cases "get_offer_ids world client_id")
  case (Inl e)
  with sent show ?thesis by (simp add: upload_prices_def)
next
  case ids: (Inr offer_ids)
  obtain prices rest where cp: "create_prices feed offer_ids = (prices, rest)"
    by (cases "create_prices feed offer_ids")
  from upload_stage [where n = "chunk_size Seller_upload_prices" and mk = Ozon_prices and P = P
      and xs = prices and rem = "remote world", OF chunk_size_positive pr sent]
  obtain pb sent' r where "divide prices (chunk_size Seller_upload_prices) = Inr pb"
    and "send_each (remote world) sent (map Ozon_prices pb) = (sent', r)"
    and "\<forall>rq \<in> set sent'. P rq" by auto
  with ids cp show ?thesis
    by (cases r) (simp_all add: upload_prices_def)
qed

lemma upload_stocks_all:
  assumes st: "\<And>b. int (length b) \<le> chunk_size Seller_upload_stocks \<Longrightarrow> P (Ozon_stocks b)"
    and sent: "\<forall>rq \<in> set sent. P rq"
  shows "\<forall>rq \<in> set (fst (upload_stocks world client_id feed sent)). P rq"
proof (cases "get_offer_ids world client_id")
  case (Inl e)
  with sent show ?thesis by (simp add: upload_stocks_def)
next
  case ids: (Inr offer_ids)
  show ?thesis
  proof (cases "create_stocks (builtin_int world) feed offer_ids")
    case (Inl e)
    with ids sent show ?thesis by (simp add: upload_stocks_def)
  next
    case (Inr res)
    obtain stocks rest where res: "res = (stocks, rest)" by (cases res)
    from upload_stage [where n = "chunk_size Seller_upload_stocks" and mk = Ozon_stocks and P = P
        and xs = stocks and rem = "remote world", OF chunk_size_positive st sent]
    obtain sb sent' r where "divide stocks (chunk_size Seller_upload_stocks) = Inr sb"
      and "send_each (remote world) sent (map Ozon_stocks sb) = (sent', r)"
      and "\<forall>rq \<in> set sent'. P rq" by auto
    with ids Inr res show ?thesis
      by (cases r) (simp_all add: upload_stocks_def)
  qed
qed

lemma market_upload_prices_all:
  assumes pr: "\<And>b. int (length b) \<le> chunk_size Market_upload_prices
                 \<Longrightarrow> P (Market_prices campaign_id b)"
    and sent: "\<forall>rq \<in> set sent. P rq"
  shows "\<forall>rq \<in> set (fst (market_upload_prices world campaign_id feed sent)). P rq"
proof (cases "get_offer_ids world campaign_id")
  case (Inl e)
  with sent show ?thesis by (simp add: market_upload_prices_def)
next
  case ids: (Inr offer_ids)
  show ?thesis
  proof (cases "market_create_prices (builtin_int world) feed offer_ids")
    case (Inl e)
    with ids sent show ?thesis by (simp add: market_upload_prices_def)
  next
    case (Inr res)
    obtain prices rest where res: "res = (prices, rest)" by (cases res)
    from upload_stage [where n = "chunk_size Market_upload_prices"
        and mk = "Market_prices campaign_id" and P = P
        and xs = prices and rem = "remote world", OF chunk_size_positive pr sent]
    obtain pb sent' r where "divide prices (chunk_size Market_upload_prices) = Inr pb"
      and "send_each (remote world) sent (map (Market_prices campaign_id) pb) = (sent', r)"
      and "\<forall>rq \<in> set sent'. P rq" by auto
    with ids Inr res show ?thesis
      by (cases r) (simp_all add: market_upload_prices_def)
  qed
qed

lemma market_upload_stocks_all:
  assumes st: "\<And>b. int (length b) \<le> chunk_size Market_upload_stocks
                 \<Longrightarrow> P (Market_stocks campaign_id b)"
    and sent: "\<forall>rq \<in> set sent. P rq"
  shows "\<forall>rq \<in> set (fst (market_upload_stocks world campaign_id warehouse_id feed sent)). P rq"
proof (cases "get_offer_ids world campaign_id")
  case (Inl e)
  with sent show ?thesis by (simp add: market_upload_stocks_def)
next
  case ids: (Inr offer_ids)
  show ?thesis
  proof (cases "market_create_stocks (builtin_int world) feed offer_ids warehouse_id (utcnow world 0)")
    case (Inl e)
    with ids sent show ?thesis by (simp add: market_upload_stocks_def)
  next
    case (Inr res)
    obtain stocks rest where res: "res = (stocks, rest)" by (cases res)
    from upload_stage [where n = "chunk_size Market_upload_stocks"
        and mk = "Market_stocks campaign_id" and P = P
        and xs = stocks and rem = "remote world", OF chunk_size_positive st sent]
    obtain sb sent' r where "divide stocks (chunk_size Market_upload_stocks) = Inr sb"
      and "send_each (remote world) sent (map (Market_stocks campaign_id) sb) = (sent', r)"
      and "\<forall>rq \<in> set sent'. P rq" by auto
    with ids Inr res show ?thesis
      by (cases r) (simp_all add: market_upload_stocks_def)
  qed
qed

lemma market_main_try_all:
  assumes st: "\<And>campaign_id b. int (length b) \<le> chunk_size Market_main_stocks
                 \<Longrightarrow> P (Market_stocks campaign_id b)"
  shows "\<forall>rq \<in> set (fst (market_main_try world cfg feed)). P rq"
proof (cases "get_offer_ids world (campaign_fbs_id cfg)")
  case (Inl e)
  then show ?thesis by (simp add: market_main_try_def)
next
  case fbs: (Inr fbs_ids)
  show ?thesis
  proof (cases "market_create_stocks (builtin_int world) feed fbs_ids (warehouse_fbs_id cfg) (utcnow world 0)")
    case (Inl e)
    with fbs show ?thesis by (simp add: market_main_try_def)
  next
    case f: (Inr res)
    obtain stocks rest where res: "res = (stocks, rest)" by (cases res)
    from upload_stage [where n = "chunk_size Market_main_stocks"
        and mk = "Market_stocks (campaign_fbs_id cfg)" and P = P and sent = "[]"
        and xs = stocks and rem = "remote world", OF chunk_size_positive st]
    obtain sb sent r where sb: "divide stocks (chunk_size Market_main_stocks) = Inr sb"
      and se: "send_each (remote world) [] (map (Market_stocks (campaign_fbs_id cfg)) sb)
               = (sent, r)"
      and sent: "\<forall>rq \<in> set sent. P rq" by auto
    show ?thesis
    proof (cases r)
      case (Inl e)
      with fbs f res sb se sent show ?thesis by (simp add: market_main_try_def)
    next
      case ok: (Inr u)
      show ?thesis
      proof (cases "get_offer_ids world (campaign_dbs_id cfg)")
        case (Inl e)
        with fbs f res sb se sent ok show ?thesis by (simp add: market_main_try_def)
      next
        case dbs: (Inr dbs_ids)
        show ?thesis
        proof (cases "market_create_stocks (builtin_int world) feed dbs_ids (warehouse_dbs_id cfg) (utcnow world 1)")
          case (Inl e)
          with fbs f res sb se sent ok dbs show ?thesis by (simp add: market_main_try_def)
        next
          case d: (Inr res')
          obtain stocks' rest' where res': "res' = (stocks', rest')" by (cases res')
          from upload_stage [where n = "chunk_size Market_main_stocks"
              and mk = "Market_stocks (campaign_dbs_id cfg)" and P = P
              and xs = stocks' and rem = "remote world", OF chunk_size_positive st sent]
          obtain sb' sent' r' where "divide stocks' (chunk_size Market_main_stocks) = Inr sb'"
            and "send_each (remote world) sent (map (Market_stocks (campaign_dbs_id cfg)) sb')
                 = (sent', r')"
            and "\<forall>rq \<in> set sent'. P rq" by auto
          with fbs f res sb se ok dbs d res' show ?thesis
            by (cases r') (simp_all add: market_main_try_def)
        qed
      qed
    qed
  qed
qed

lemma market_main_fst:
  "fst (market_main world cfg)
   = (case download_stock world of Inl e \<Rightarrow> []
      | Inr feed \<Rightarrow> fst (market_main_try world cfg feed))"
  by (simp add: market_main_def split: prod.splits sum.splits)

lemma market_main_create_stocks_fails:
  "download_stock world = Inr feed \<Longrightarrow> get_offer_ids world (campaign_fbs_id cfg) = Inr offer_ids \<Longrightarrow>
   market_create_stocks (builtin_int world) feed offer_ids (warehouse_fbs_id cfg) (utcnow world 0) = Inl e \<Longrightarrow>
   market_main world cfg = ([], handler e)"
  by (simp add: market_main_def market_main_try_def)

lemma docstring_create_stocks:
  "create_stocks example_int docstring_remnants docstring_offer_ids
     = Inr ([\<lparr>offer_id = ''123'', stock = 5\<rparr>, \<lparr>offer_id = ''789'', stock = 0\<rparr>], [''789''])"
  by (simp add: create_stocks_def docstring_remnants_def docstring_offer_ids_def stock_of_5)

lemma docstring_create_prices_after:
  "create_prices docstring_remnants [''789''] = ([], [''789''])"
  by (simp add: create_prices_eq docstring_remnants_def)

lemma divide_Nil: "0 < n \<Longrightarrow> divide [] n = Inr []"
  by (simp add: divide_def divide_from_Nil)

lemma divide_single: "0 < n \<Longrightarrow> int (length xs) \<le> n \<Longrightarrow> xs \<noteq> [] \<Longrightarrow> divide xs n = Inr [xs]"
  by (simp add: divide_def divide_from_Cons divide_from_Nil)

lemma docstring_seller_main:
  "seller_main docstring_world ''client''
     = ([Ozon_stocks [\<lparr>offer_id = ''123'', stock = 5\<rparr>, \<lparr>offer_id = ''789'', stock = 0\<rparr>]],
        Returned)"
  by (simp add: seller_main_def seller_main_try_def docstring_world_def docstring_create_stocks
      docstring_create_prices_after divide_Nil divide_single)

lemma docstring_market_create_stocks:
  "market_create_stocks example_int docstring_remnants docstring_offer_ids wh date
     = Inr ([sku_of wh date ''123'' 5, sku_of wh date ''789'' 0], [''789''])"
  by (simp add: market_create_stocks_eq docstring_create_stocks to_sku_def)

lemma docstring_market_main:
  "market_main docstring_world docstring_config
     = ([Market_stocks ''fbs''
           [sku_of ''warehouse_fbs'' ''2023-09-09T21:07:47Z'' ''123'' 5,
            sku_of ''warehouse_fbs'' ''2023-09-09T21:07:47Z'' ''789'' 0],
         Market_stocks ''dbs''
           [sku_of ''warehouse_dbs'' ''2023-09-09T21:07:47Z'' ''123'' 5,
            sku_of ''warehouse_dbs'' ''2023-09-09T21:07:47Z'' ''789'' 0]],
        Returned)"
  by (simp add: market_main_def market_main_try_def docstring_world_def docstring_config_def
      docstring_market_create_stocks divide_single)

lemma docstring_market_create_prices:
  "market_create_prices example_int docstring_remnants docstring_offer_ids
     = Inr ([\<lparr>offer_price_id = ''123'',
               offer_price = \<lparr>money_value = 5990, currencyId = ''RUR''\<rparr>\<rparr>], docstring_offer_ids)"
  by (simp add: market_create_prices_def docstring_remnants_def docstring_offer_ids_def
      price_conversion_5990 int_of_example_5990)

lemma docstring_awaited_upload_prices:
  "market_upload_prices docstring_world ''fbs'' docstring_remnants []
     = ([Market_prices ''fbs''
           [\<lparr>offer_price_id = ''123'',
             offer_price = \<lparr>money_value = 5990, currencyId = ''RUR''\<rparr>\<rparr>]],
        Inr [\<lparr>offer_price_id = ''123'',
              offer_price = \<lparr>money_value = 5990, currencyId = ''RUR''\<rparr>\<rparr>])"
  by (simp add: market_upload_prices_def docstring_world_def docstring_market_create_prices
      divide_single)

lemma market_create_prices_replicate:
  assumes "kod w \<in> set ids" and "py_int (price_conversion (tsena w)) = Some v"
  shows "market_create_prices py_int (replicate k w) ids
         = Inr (replicate k \<lparr>offer_price_id = kod w,
                              offer_price = \<lparr>money_value = v, currencyId = ''RUR''\<rparr>\<rparr>, ids)"
proof -
  have "\<forall>u \<in> set (filter (\<lambda>w. kod w \<in> set ids) (replicate k w)).
          py_int (price_conversion (tsena u)) = Some ((\<lambda>u. v) u)"
    using assms by auto
  from market_prices_loop_ok [OF this, of "[]"] assms(1) show ?thesis
    by (simp add: market_create_prices_def map_replicate)
qed

lemma divide_replicate_501:
  "divide (replicate 501 x) 500 = Inr [replicate 500 x, replicate 1 x]"
proof -
  have a: "divide_from (replicate 501 x) 500 0
           = replicate 500 x # divide_from (replicate 501 x) 500 500"
    using divide_from_Cons [of 500 0 "replicate 501 x"] by simp
  have b: "divide_from (replicate 501 x) 500 500
           = replicate 1 x # divide_from (replicate 501 x) 500 1000"
    using divide_from_Cons [of 500 500 "replicate 501 x"] by simp
  have c: "divide_from (replicate 501 x) 500 1000 = []"
    by (rule divide_from_Nil) simp
  have "divide (replicate 501 x) 500 = Inr (divide_from (replicate 501 x) 500 0)"
    by (simp add: divide_def)
  then show ?thesis
    by (simp only: a b c)
qed

section \<open>The orchestration\<close>

text \<open>
  C10. In \<open>main\<close> of market.py the two calls of the \<open>async def\<close> function
  \<open>upload_prices\<close> only create coroutines, which are never awaited and never run: for
  every feed, every catalog and every behaviour of the marketplace, no request that
  \<open>main\<close> sends is a price update; it sends stock updates only.
\<close>

theorem market_main_sends_no_prices:
  "\<forall>rq \<in> set (fst (market_main world cfg)). \<not> is_price_request rq"
proof (cases "download_stock world")
  case (Inl e)
  then show ?thesis by (simp add: market_main_fst)
next
  case (Inr feed)
  have "\<forall>rq \<in> set (fst (market_main_try world cfg feed)). \<not> is_price_request rq"
    by (rule market_main_try_all) simp
  with Inr show ?thesis by (simp add: market_main_fst)
qed

text \<open>
  The run of the examples sends the two stock uploads and no price update, while the body
  of \<open>upload_prices\<close>, had it been awaited, would have sent one.
\<close>

theorem market_main_sends_no_prices_witness:
  "fst (market_main docstring_world docstring_config)
     = [Market_stocks ''fbs''
           [sku_of ''warehouse_fbs'' ''2023-09-09T21:07:47Z'' ''123'' 5,
            sku_of ''warehouse_fbs'' ''2023-09-09T21:07:47Z'' ''789'' 0],
         Market_stocks ''dbs''
           [sku_of ''warehouse_dbs'' ''2023-09-09T21:07:47Z'' ''123'' 5,
            sku_of ''warehouse_dbs'' ''2023-09-09T21:07:47Z'' ''789'' 0]]
   \<and> filter is_price_request (fst (market_main docstring_world docstring_config)) = []
   \<and> filter is_price_request
        (fst (await (Coroutine (market_upload_prices docstring_world ''fbs'' docstring_remnants)) []))
       = [Market_prices ''fbs''
           [\<lparr>offer_price_id = ''123'',
             offer_price = \<lparr>money_value = 5990, currencyId = ''RUR''\<rparr>\<rparr>]]"
proof -
  have a: "fst (market_main docstring_world docstring_config)
     = [Market_stocks ''fbs''
           [sku_of ''warehouse_fbs'' ''2023-09-09T21:07:47Z'' ''123'' 5,
            sku_of ''warehouse_fbs'' ''2023-09-09T21:07:47Z'' ''789'' 0],
         Market_stocks ''dbs''
           [sku_of ''warehouse_dbs'' ''2023-09-09T21:07:47Z'' ''123'' 5,
            sku_of ''warehouse_dbs'' ''2023-09-09T21:07:47Z'' ''789'' 0]]"
    by (simp only: docstring_market_main fst_conv)
  have b: "filter is_price_request (fst (market_main docstring_world docstring_config)) = []"
    using market_main_sends_no_prices [of docstring_world docstring_config]
    by (simp add: filter_empty_conv)
  have c: "filter is_price_request
        (fst (await (Coroutine (market_upload_prices docstring_world ''fbs'' docstring_remnants)) []))
       = [Market_prices ''fbs''
           [\<lparr>offer_price_id = ''123'',
             offer_price = \<lparr>money_value = 5990, currencyId = ''RUR''\<rparr>\<rparr>]]"
    by (simp add: docstring_awaited_upload_prices)
  from a b c show ?thesis by (intro conjI)
qed

text \<open>
  C9. In \<open>main\<close> of seller.py the list \<open>offer_ids\<close> handed to \<open>create_prices\<close> is
  the one \<open>create_stocks\<close> has consumed. For every feed and every catalog with pairwise
  distinct ids, that call of \<open>create_prices\<close> returns the empty list, and no request
  that \<open>main\<close> sends is a price update.
\<close>

theorem seller_main_submits_no_prices:
  assumes "distinct offer_ids"
  shows "(create_stocks py_int feed offer_ids = Inr (stocks, rest) \<longrightarrow>
            create_prices feed rest = ([], rest))
         \<and> (get_offer_ids world client_id = Inr offer_ids \<longrightarrow>
            (\<forall>rq \<in> set (fst (seller_main world client_id)). \<not> is_price_request rq))"
proof -
  have no_prices: "create_prices feed' rest' = ([], rest')"
    if "create_stocks p feed' offer_ids = Inr (stocks', rest')" for p feed' stocks' rest'
  proof -
    from create_stocks_distinct_result [OF assms that]
    have "rest' = uncovered_ids offer_ids feed'" by blast
    then have "filter (\<lambda>w. kod w \<in> set rest') feed' = []"
      by (auto simp: filter_empty_conv uncovered_ids_def)
    then show ?thesis by (simp add: create_prices_eq)
  qed
  have main: "\<forall>rq \<in> set (fst (seller_main world client_id)). \<not> is_price_request rq"
    if ids: "get_offer_ids world client_id = Inr offer_ids"
  proof (cases "download_stock world")
    case (Inl e)
    with ids show ?thesis by (simp add: seller_main_fst seller_main_try_def)
  next
    case feed: (Inr watch_remnants)
    show ?thesis
    proof (cases "create_stocks (builtin_int world) watch_remnants offer_ids")
      case (Inl e)
      with ids feed show ?thesis by (simp add: seller_main_fst seller_main_try_def)
    next
      case (Inr res)
      obtain stocks' rest' where res: "res = (stocks', rest')" by (cases res)
      have st: "\<And>b. int (length b) \<le> chunk_size Seller_main_stocks
                  \<Longrightarrow> \<not> is_price_request (Ozon_stocks b)" by simp
      from upload_stage [where n = "chunk_size Seller_main_stocks" and mk = Ozon_stocks
          and P = "\<lambda>rq. \<not> is_price_request rq" and sent = "[]" and xs = stocks'
          and rem = "remote world", OF chunk_size_positive st]
      obtain sb sent r where sb: "divide stocks' (chunk_size Seller_main_stocks) = Inr sb"
        and se: "send_each (remote world) [] (map Ozon_stocks sb) = (sent, r)"
        and sent: "\<forall>rq \<in> set sent. \<not> is_price_request rq" by auto
      from Inr res have "create_prices watch_remnants rest' = ([], rest')"
        by (simp add: no_prices)
      with ids feed Inr res sb se sent show ?thesis
        by (cases r) (simp_all add: seller_main_fst seller_main_try_def divide_Nil)
    qed
  qed
  from no_prices main show ?thesis by blast
qed

theorem seller_main_submits_no_prices_witness:
  "distinct docstring_offer_ids
   \<and> create_stocks example_int docstring_remnants docstring_offer_ids
       = Inr ([\<lparr>offer_id = ''123'', stock = 5\<rparr>, \<lparr>offer_id = ''789'', stock = 0\<rparr>], [''789''])
   \<and> create_prices docstring_remnants [''789''] = ([], [''789''])
   \<and> get_offer_ids docstring_world ''client'' = Inr docstring_offer_ids
   \<and> fst (seller_main docstring_world ''client'')
       = [Ozon_stocks [\<lparr>offer_id = ''123'', stock = 5\<rparr>, \<lparr>offer_id = ''789'', stock = 0\<rparr>]]
   \<and> filter is_price_request (fst (seller_main docstring_world ''client'')) = []
   \<and> fst (create_prices docstring_remnants docstring_offer_ids)
       = [price_record_of \<lparr>kod = ''123'', kolichestvo = ''5'', tsena = price_5990\<rparr>]"
proof -
  note t = seller_main_submits_no_prices [OF docstring_distinct, of example_int docstring_remnants
      "[\<lparr>offer_id = ''123'', stock = 5\<rparr>, \<lparr>offer_id = ''789'', stock = 0\<rparr>]" "[''789'']"
      docstring_world "''client''"]
  have g: "get_offer_ids docstring_world ''client'' = Inr docstring_offer_ids"
    by (simp add: docstring_world_def)
  from t docstring_create_stocks
  have p: "create_prices docstring_remnants [''789''] = ([], [''789''])" by blast
  have m: "fst (seller_main docstring_world ''client'')
       = [Ozon_stocks [\<lparr>offer_id = ''123'', stock = 5\<rparr>, \<lparr>offer_id = ''789'', stock = 0\<rparr>]]"
    by (simp only: docstring_seller_main fst_conv)
  from t g have "\<forall>rq \<in> set (fst (seller_main docstring_world ''client'')). \<not> is_price_request rq"
    by blast
  then have f: "filter is_price_request (fst (seller_main docstring_world ''client'')) = []"
    by (simp add: filter_empty_conv)
  have fresh: "fst (create_prices docstring_remnants docstring_offer_ids)
       = [price_record_of \<lparr>kod = ''123'', kolichestvo = ''5'', tsena = price_5990\<rparr>]"
    by (simp add: create_prices_eq docstring_remnants_def docstring_offer_ids_def)
  from docstring_distinct docstring_create_stocks p g m f fresh show ?thesis by (intro conjI)
qed

text \<open>
  C6, as the code has it. The chunk size handed to \<open>divide\<close> before an upload is one
  of 100, 500, 900, 1000 and 2000, and on every orchestration path (both \<open>main\<close>
  functions, and the four upload functions run from an empty history) every batch
  submitted holds at most the chunk size of its step.
\<close>

theorem batches_within_chunk_size:
  "chunk_size step \<in> {100, 500, 900, 1000, 2000}
   \<and> (\<forall>rq \<in> set (fst (seller_main world account)).
        int (batch_length rq)
          \<le> chunk_size (if is_price_request rq then Seller_main_prices else Seller_main_stocks))
   \<and> (\<forall>rq \<in> set (fst (upload_prices world account feed [])).
        int (batch_length rq) \<le> chunk_size Seller_upload_prices)
   \<and> (\<forall>rq \<in> set (fst (upload_stocks world account feed [])).
        int (batch_length rq) \<le> chunk_size Seller_upload_stocks)
   \<and> (\<forall>rq \<in> set (fst (market_main world cfg)).
        int (batch_length rq) \<le> chunk_size Market_main_stocks)
   \<and> (\<forall>rq \<in> set (fst (market_upload_prices world account feed [])).
        int (batch_length rq) \<le> chunk_size Market_upload_prices)
   \<and> (\<forall>rq \<in> set (fst (market_upload_stocks world account warehouse_id feed [])).
        int (batch_length rq) \<le> chunk_size Market_upload_stocks)"
proof -
  have a: "chunk_size step \<in> {100, 500, 900, 1000, 2000}"
    by (cases step) simp_all
  have b: "\<forall>rq \<in> set (fst (seller_main world account)).
        int (batch_length rq)
          \<le> chunk_size (if is_price_request rq then Seller_main_prices else Seller_main_stocks)"
    unfolding seller_main_fst by (rule seller_main_try_all) simp_all
  have c: "\<forall>rq \<in> set (fst (upload_prices world account feed [])).
        int (batch_length rq) \<le> chunk_size Seller_upload_prices"
    by (rule upload_prices_all) simp_all
  have d: "\<forall>rq \<in> set (fst (upload_stocks world account feed [])).
        int (batch_length rq) \<le> chunk_size Seller_upload_stocks"
    by (rule upload_stocks_all) simp_all
  have e: "\<forall>rq \<in> set (fst (market_main world cfg)).
        int (batch_length rq) \<le> chunk_size Market_main_stocks"
  proof (cases "download_stock world")
    case (Inl e)
    then show ?thesis by (simp add: market_main_fst)
  next
    case (Inr watch_remnants)
    have "\<forall>rq \<in> set (fst (market_main_try world cfg watch_remnants)).
            int (batch_length rq) \<le> chunk_size Market_main_stocks"
      by (rule market_main_try_all) simp
    with Inr show ?thesis by (simp add: market_main_fst)
  qed
  have f: "\<forall>rq \<in> set (fst (market_upload_prices world account feed [])).
        int (batch_length rq) \<le> chunk_size Market_upload_prices"
    by (rule market_upload_prices_all) simp_all
  have g: "\<forall>rq \<in> set (fst (market_upload_stocks world account warehouse_id feed [])).
        int (batch_length rq) \<le> chunk_size Market_upload_stocks"
    by (rule market_upload_stocks_all) simp_all
  from a b c d e f g show ?thesis by (intro conjI)
qed

theorem batches_within_chunk_size_witness:
  "fst (seller_main docstring_world ''client'')
     = [Ozon_stocks [\<lparr>offer_id = ''123'', stock = 5\<rparr>, \<lparr>offer_id = ''789'', stock = 0\<rparr>]]
   \<and> int (batch_length
        (Ozon_stocks [\<lparr>offer_id = ''123'', stock = 5\<rparr>, \<lparr>offer_id = ''789'', stock = 0\<rparr>]))
       \<le> chunk_size Seller_main_stocks
   \<and> chunk_size Seller_main_stocks = 100
   \<and> list_all (\<lambda>rq. int (batch_length rq) \<le> 500)
        (fst (market_upload_prices docstring_world ''fbs''
           (replicate 501 \<lparr>kod = ''123'', kolichestvo = ''5'', tsena = price_5990\<rparr>) []))"
proof -
  let ?rq = "Ozon_stocks [\<lparr>offer_id = ''123'', stock = 5\<rparr>, \<lparr>offer_id = ''789'', stock = 0\<rparr>]"
  note t = batches_within_chunk_size [of Seller_main_stocks docstring_world "''client''"
      "replicate 501 \<lparr>kod = ''123'', kolichestvo = ''5'', tsena = price_5990\<rparr>" 
      docstring_config "''fbs''"]
  note u = batches_within_chunk_size [of Seller_main_stocks docstring_world "''fbs''"
      "replicate 501 \<lparr>kod = ''123'', kolichestvo = ''5'', tsena = price_5990\<rparr>" 
      docstring_config "''fbs''"]
  have m: "fst (seller_main docstring_world ''client'') = [?rq]"
    by (simp only: docstring_seller_main fst_conv)
  from t have "\<forall>rq \<in> set (fst (seller_main docstring_world ''client'')).
        int (batch_length rq)
          \<le> chunk_size (if is_price_request rq then Seller_main_prices else Seller_main_stocks)"
    by blast
  then have b: "int (batch_length ?rq) \<le> chunk_size Seller_main_stocks"
    unfolding m by simp
  have c: "chunk_size Seller_main_stocks = 100" by simp
  from u have "\<forall>rq \<in> set (fst (market_upload_prices docstring_world ''fbs''
           (replicate 501 \<lparr>kod = ''123'', kolichestvo = ''5'', tsena = price_5990\<rparr>) [])).
        int (batch_length rq) \<le> chunk_size Market_upload_prices" by blast
  then have d: "list_all (\<lambda>rq. int (batch_length rq) \<le> 500)
        (fst (market_upload_prices docstring_world ''fbs''
           (replicate 501 \<lparr>kod = ''123'', kolichestvo = ''5'', tsena = price_5990\<rparr>) []))"
    by (simp add: list_all_iff)
  from m b c d show ?thesis by (intro conjI)
qed

text \<open>
  \<open>upload_prices\<close> of market.py hands 500 to \<open>divide\<close>: 501 price records leave
  in batches of 500 and 1.
\<close>

theorem chunk_size_500_counterexample:
  "chunk_size Market_upload_prices = 500
   \<and> chunk_size Market_upload_prices \<notin> {100, 900, 1000, 2000}
   \<and> map batch_length
       (fst (market_upload_prices docstring_world ''fbs''
          (replicate 501 \<lparr>kod = ''123'', kolichestvo = ''5'', tsena = price_5990\<rparr>) []))
     = [500, 1]"
proof -
  let ?w = "\<lparr>kod = ''123'', kolichestvo = ''5'', tsena = price_5990\<rparr>"
  have a: "chunk_size Market_upload_prices = 500" by simp
  have b: "chunk_size Market_upload_prices \<notin> {100, 900, 1000, 2000}" by simp
  have p: "market_create_prices example_int (replicate 501 ?w) docstring_offer_ids
           = Inr (replicate 501
                    \<lparr>offer_price_id = ''123'',
                      offer_price = \<lparr>money_value = 5990, currencyId = ''RUR''\<rparr>\<rparr>,
                  docstring_offer_ids)"
    using market_create_prices_replicate [of ?w docstring_offer_ids example_int 5990 501]
    by (simp add: docstring_offer_ids_def price_conversion_5990 example_int_def)
  have c: "map batch_length
       (fst (market_upload_prices docstring_world ''fbs'' (replicate 501 ?w) [])) = [500, 1]"
    by (simp add: market_upload_prices_def docstring_world_def p divide_replicate_501)
  from a b c show ?thesis by (intro conjI)
qed

text \<open>
  C8, as the code has it. Take a feed row whose code is still in the catalog list once
  every earlier row has taken one occurrence of its own code out of it (what
  \<open>offer_ids.remove\<close> does for a row that finds its code there), and whose raw
  quantity is neither \<open>>10\<close> nor \<open>1\<close> and is rejected by \<open>int\<close>. Then
  \<open>create_stocks\<close> of both files raises \<open>ValueError\<close> and returns no list; the
  upload functions pass the exception on to their caller and send nothing; \<open>main\<close> of
  seller.py, and \<open>main\<close> of market.py when the catalog is the FBS one, catch it in
  their last \<open>except\<close> clause, print the generic line and return with no request sent.
\<close>

theorem create_stocks_malformed_quantity_propagates:
  assumes "i < length feed"
    and "kod (feed ! i) \<in> set (fold remove1 (map kod (take i feed)) offer_ids)"
    and "kolichestvo (feed ! i) \<noteq> ''>10''" and "kolichestvo (feed ! i) \<noteq> ''1''"
    and "py_int (kolichestvo (feed ! i)) = None"
  shows "create_stocks py_int feed offer_ids = Inl ValueError
       \<and> market_create_stocks py_int feed offer_ids warehouse_id date = Inl ValueError
       \<and> (builtin_int world = py_int \<and> get_offer_ids world account = Inr offer_ids \<longrightarrow>
            upload_stocks world account feed sent = (sent, Inl ValueError)
          \<and> market_upload_stocks world account warehouse_id feed sent = (sent, Inl ValueError))
       \<and> (builtin_int world = py_int \<and> get_offer_ids world account = Inr offer_ids
            \<and> download_stock world = Inr feed \<longrightarrow>
            seller_main world account = ([], Printed (Error_2_message ValueError)))
       \<and> (builtin_int world = py_int
            \<and> get_offer_ids world (campaign_fbs_id cfg) = Inr offer_ids
            \<and> download_stock world = Inr feed \<longrightarrow>
            market_main world cfg = ([], Printed (Error_2_message ValueError)))"
proof -
  from assms(3,4,5) have "stock_of py_int (feed ! i) = Inl ValueError"
    by (simp add: stock_of_def int_of_def)
  from create_stocks_row_fails [OF assms(1,2) this]
  have a: "create_stocks py_int feed offer_ids = Inl ValueError" .
  then have b: "\<And>wh d. market_create_stocks py_int feed offer_ids wh d = Inl ValueError"
    by (simp only: market_create_stocks_Inl)
  have c: "builtin_int world = py_int \<and> get_offer_ids world account = Inr offer_ids \<longrightarrow>
            upload_stocks world account feed sent = (sent, Inl ValueError)
          \<and> market_upload_stocks world account warehouse_id feed sent = (sent, Inl ValueError)"
    using a b by (simp add: upload_stocks_def market_upload_stocks_def)
  have d: "builtin_int world = py_int \<and> get_offer_ids world account = Inr offer_ids
            \<and> download_stock world = Inr feed \<longrightarrow>
            seller_main world account = ([], Printed (Error_2_message ValueError))"
  proof (intro impI, elim conjE)
    assume w: "builtin_int world = py_int"
      and g: "get_offer_ids world account = Inr offer_ids"
      and f: "download_stock world = Inr feed"
    from a w have "create_stocks (builtin_int world) feed offer_ids = Inl ValueError"
      by simp
    from seller_main_create_stocks_fails [OF g f this] show
      "seller_main world account = ([], Printed (Error_2_message ValueError))" by simp
  qed
  have e: "builtin_int world = py_int
            \<and> get_offer_ids world (campaign_fbs_id cfg) = Inr offer_ids
            \<and> download_stock world = Inr feed \<longrightarrow>
            market_main world cfg = ([], Printed (Error_2_message ValueError))"
  proof (intro impI, elim conjE)
    assume w: "builtin_int world = py_int"
      and g: "get_offer_ids world (campaign_fbs_id cfg) = Inr offer_ids"
      and f: "download_stock world = Inr feed"
    from b w have "market_create_stocks (builtin_int world) feed offer_ids
                     (warehouse_fbs_id cfg) (utcnow world 0) = Inl ValueError"
      by simp
    from market_main_create_stocks_fails [OF f g this] show
      "market_main world cfg = ([], Printed (Error_2_message ValueError))" by simp
  qed
  from a b c d e show ?thesis by blast
qed

text \<open>
  A catalog that lists 123 twice and a feed with two rows of code 123: the second row
  still finds its code in the list, and its quantity \<open>x\<close> makes the run fail.
\<close>

theorem create_stocks_malformed_quantity_propagates_witness:
  "(1::nat) < length [\<lparr>kod = ''123'', kolichestvo = ''5'', tsena = price_5990\<rparr>,
                      \<lparr>kod = ''123'', kolichestvo = ''x'', tsena = price_5990\<rparr>]
   \<and> fold remove1 (map kod (take 1 [\<lparr>kod = ''123'', kolichestvo = ''5'', tsena = price_5990\<rparr>,
                                     \<lparr>kod = ''123'', kolichestvo = ''x'', tsena = price_5990\<rparr>]))
        [''123'', ''123''] = [''123'']
   \<and> ''x'' \<noteq> ''>10'' \<and> ''x'' \<noteq> ''1'' \<and> example_int ''x'' = None
   \<and> create_stocks example_int
        [\<lparr>kod = ''123'', kolichestvo = ''5'', tsena = price_5990\<rparr>,
         \<lparr>kod = ''123'', kolichestvo = ''x'', tsena = price_5990\<rparr>] [''123'', ''123'']
       = Inl ValueError
   \<and> seller_main
        (docstring_world\<lparr>get_offer_ids := (\<lambda>account. Inr [''123'', ''123'']),
           download_stock :=
             Inr [\<lparr>kod = ''123'', kolichestvo = ''5'', tsena = price_5990\<rparr>,
                  \<lparr>kod = ''123'', kolichestvo = ''x'', tsena = price_5990\<rparr>]\<rparr>) ''client''
       = ([], Printed (Error_2_message ValueError))
   \<and> market_main
        (docstring_world\<lparr>get_offer_ids := (\<lambda>account. Inr [''123'', ''123'']),
           download_stock :=
             Inr [\<lparr>kod = ''123'', kolichestvo = ''5'', tsena = price_5990\<rparr>,
                  \<lparr>kod = ''123'', kolichestvo = ''x'', tsena = price_5990\<rparr>]\<rparr>) docstring_config
       = ([], Printed (Error_2_message ValueError))"
proof -
  let ?w = "\<lparr>kod = ''123'', kolichestvo = ''5'', tsena = price_5990\<rparr>"
  let ?x = "\<lparr>kod = ''123'', kolichestvo = ''x'', tsena = price_5990\<rparr>"
  let ?ids = "[''123'', ''123'']"
  let ?world = "docstring_world\<lparr>get_offer_ids := (\<lambda>account. Inr ?ids),
                  download_stock := Inr [?w, ?x]\<rparr>"
  have h1: "(1::nat) < length [?w, ?x]" by simp
  have r: "fold remove1 (map kod (take 1 [?w, ?x])) ?ids = [''123'']" by simp
  have h2: "kod ([?w, ?x] ! 1) \<in> set (fold remove1 (map kod (take 1 [?w, ?x])) ?ids)"
    unfolding r by simp
  have h3: "kolichestvo ([?w, ?x] ! 1) \<noteq> ''>10''" by simp
  have h4: "kolichestvo ([?w, ?x] ! 1) \<noteq> ''1''" by simp
  have x: "example_int ''x'' = None" by (simp add: example_int_def)
  then have h5: "example_int (kolichestvo ([?w, ?x] ! 1)) = None" by simp
  note t = create_stocks_malformed_quantity_propagates [where i = 1 and feed = "[?w, ?x]"
      and offer_ids = ?ids and py_int = example_int
      and warehouse_id = "''warehouse''" and date = "''date''" and world = ?world
      and account = "''client''" and sent = "[]" and cfg = docstring_config,
      OF h1 h2 h3 h4 h5]
  have w: "builtin_int ?world = example_int"
    by (simp add: docstring_world_def)
  have g: "get_offer_ids ?world a = Inr ?ids" for a
    by simp
  have dl: "download_stock ?world = Inr [?w, ?x]" by simp
  from t have a: "create_stocks example_int [?w, ?x] ?ids = Inl ValueError"
    by (rule conjunct1)
  from t w g dl
  have b: "seller_main ?world ''client'' = ([], Printed (Error_2_message ValueError))" by blast
  from t w g dl
  have c: "market_main ?world docstring_config = ([], Printed (Error_2_message ValueError))"
    by blast
  have x1: "''x'' \<noteq> ''>10''" and x2: "''x'' \<noteq> ''1''" by simp_all
  from h1 r x1 x2 x a b c show ?thesis by (intro conjI)
qed

text \<open>
  A feed row whose code is in the catalog and whose quantity does not parse raises nothing
  when an earlier row of the same code has already taken the id out of the list.
\<close>

theorem create_stocks_later_row_counterexample:
  "create_stocks example_int
     [\<lparr>kod = ''123'', kolichestvo = ''5'', tsena = price_5990\<rparr>,
      \<lparr>kod = ''123'', kolichestvo = ''x'', tsena = price_5990\<rparr>] [''123'', ''789'']
     = Inr ([\<lparr>offer_id = ''123'', stock = 5\<rparr>, \<lparr>offer_id = ''789'', stock = 0\<rparr>], [''789''])
   \<and> ''123'' \<in> set [''123'', ''789'']
   \<and> example_int ''x'' = None"
  by (simp add: create_stocks_def stock_of_5 example_int_def)

end
